theory Spec2Isabelle
  imports Main "HOL-Library.AList"
begin

section \<open>Python values and exceptions\<close>

text \<open>
  The values that flow through \<^verbatim>\<open>ddtrace/contrib/elasticsearch/patch.py\<close>: request bodies,
  results of the client's \<^verbatim>\<open>perform_request\<close> and tag values. A Python \<^verbatim>\<open>str\<close> is
  represented by the bytes of its UTF-8 encoding, a \<^verbatim>\<open>dict\<close> by an association list in
  insertion order (keys are strings, as in a decoded JSON body). Floats are not modelled.
\<close>

datatype pyval =
    PNone
  | PBool bool
  | PInt int
  | PStr string
  | PList "pyval list"
  | PTuple "pyval list"
  | PDict "(string \<times> pyval) list"

text \<open>
  Exceptions. \<open>TransportError cls sc\<close> is an instance of
  \<^verbatim>\<open>elasticsearch.exceptions.TransportError\<close> or of its subclass named \<open>cls\<close>;
  \<open>sc\<close> is its \<^verbatim>\<open>status_code\<close> attribute when the instance has one.
  \<open>OtherError\<close> is any exception that is not a \<^verbatim>\<open>TransportError\<close>.
\<close>

datatype exn =
    TransportError string "pyval option"
  | TypeError
  | ValueError
  | AttributeError
  | UnicodeDecodeError
  | OtherError string

section \<open>Strings: split, URL decoding and encoding\<close>

text \<open>
  \<^verbatim>\<open>str.split(sep)\<close> with a one-character separator: the result is never empty, and two
  adjacent separators give an empty piece.
\<close>

fun str_split :: "char \<Rightarrow> string \<Rightarrow> string list" where
  "str_split sep [] = [[]]"
| "str_split sep (c # cs) =
     (if c = sep then [] # str_split sep cs
      else (case str_split sep cs of
              [] \<Rightarrow> [[c]]
            | w # ws \<Rightarrow> (c # w) # ws))"

definition hex_digits :: "(char \<times> nat) list" where
  "hex_digits =
     [(CHR ''0'', 0), (CHR ''1'', 1), (CHR ''2'', 2), (CHR ''3'', 3), (CHR ''4'', 4),
      (CHR ''5'', 5), (CHR ''6'', 6), (CHR ''7'', 7), (CHR ''8'', 8), (CHR ''9'', 9),
      (CHR ''a'', 10), (CHR ''b'', 11), (CHR ''c'', 12), (CHR ''d'', 13), (CHR ''e'', 14),
      (CHR ''f'', 15),
      (CHR ''A'', 10), (CHR ''B'', 11), (CHR ''C'', 12), (CHR ''D'', 13), (CHR ''E'', 14),
      (CHR ''F'', 15)]"

definition hex_val :: "char \<Rightarrow> nat option" where
  "hex_val c = map_of hex_digits c"

text \<open>
  Modelled from the spec: \<^verbatim>\<open>urldecode\<close> of \<^verbatim>\<open>ddtrace.internal.compat\<close>, which is not
  among the source files; the spec calls its result the "URL-decoded value". Each
  \<^verbatim>\<open>%XY\<close> with two hexadecimal digits becomes the byte it names, every other character
  is kept (a \<^verbatim>\<open>%\<close> that no two hexadecimal digits follow included). The decoded bytes
  are kept as they are.
\<close>

fun urldecode :: "string \<Rightarrow> string" where
  "urldecode (p # a # b # cs) =
     (if p = CHR ''%'' then
        (case (hex_val a, hex_val b) of
           (Some h, Some l) \<Rightarrow> char_of (16 * h + l) # urldecode cs
         | _ \<Rightarrow> p # urldecode (a # b # cs))
      else p # urldecode (a # b # cs))"
| "urldecode cs = cs"

definition always_safe :: string where
  "always_safe =
     ''ABCDEFGHIJKLMNOPQRSTUVWXYZabcdefghijklmnopqrstuvwxyz0123456789_.-~''"

definition hex_upper :: "nat \<Rightarrow> char" where
  "hex_upper n = ''0123456789ABCDEF'' ! (n mod 16)"

text \<open>
  \<^verbatim>\<open>quote_plus\<close> of the standard library, which \<^verbatim>\<open>urlencode\<close> applies to every key and
  value: letters, digits and \<^verbatim>\<open>_.-~\<close> are kept (the tilde from Python 3.7 on), a space
  becomes \<^verbatim>\<open>+\<close>, every other byte becomes \<^verbatim>\<open>%XY\<close> with upper-case hexadecimal digits.
\<close>

definition quote_char :: "char \<Rightarrow> string" where
  "quote_char c =
     (if c \<in> set always_safe then [c]
      else if c = CHR '' '' then ''+''
      else [CHR ''%'', hex_upper (of_char c div 16), hex_upper (of_char c mod 16)])"

definition quote_plus :: "string \<Rightarrow> string" where
  "quote_plus s = concat (map quote_char s)"

fun str_join :: "string \<Rightarrow> string list \<Rightarrow> string" where
  "str_join sep [] = []"
| "str_join sep [x] = x"
| "str_join sep (x # y # ys) = x @ sep @ str_join sep (y # ys)"

text \<open>
  Modelled from the spec: \<^verbatim>\<open>urlencode\<close> of \<^verbatim>\<open>ddtrace.internal.compat\<close> (the standard
  library's), on a mapping from strings to strings: "joined with \<^verbatim>\<open>&\<close>, each pair
  \<^verbatim>\<open>key=value\<close>, values URL-encoded", in the mapping's order.
\<close>

definition urlencode :: "(string \<times> string) list \<Rightarrow> string" where
  "urlencode params =
     str_join ''&'' (map (\<lambda>(k, v). quote_plus k @ ''='' @ quote_plus v) params)"

text \<open>
  Modelled from the spec: \<^verbatim>\<open>urlparse\<close> of \<^verbatim>\<open>ddtrace.internal.compat\<close> (the standard
  library's), for the request targets a client hands to the transport, where "the URL
  string bundles path and query string together": the path is what precedes the first
  \<^verbatim>\<open>?\<close>, the query string what follows it, and a fragment (from the first \<^verbatim>\<open>#\<close> on) belongs
  to neither. Scheme, network location and \<^verbatim>\<open>;\<close> parameters are outside the model. The
  result is the pair \<^verbatim>\<open>(parsed_url.path, parsed_url.query)\<close>.
\<close>

definition urlparse :: "string \<Rightarrow> string \<times> string" where
  "urlparse url =
     (let u = takeWhile (\<lambda>c. c \<noteq> CHR ''#'') url
      in (takeWhile (\<lambda>c. c \<noteq> CHR ''?'') u, drop 1 (dropWhile (\<lambda>c. c \<noteq> CHR ''?'') u)))"

section \<open>The 8.x URL and parameter parser\<close>

text \<open>
  The loop of \<^verbatim>\<open>_parse_elasticsearch8_urlparams\<close> over \<^verbatim>\<open>params_list\<close>, with the
  dictionary \<^verbatim>\<open>params\<close> as accumulator. \<^verbatim>\<open>k, v = kv\<close> raises \<^verbatim>\<open>ValueError\<close> unless
  \<^verbatim>\<open>kv\<close> has exactly two elements. In the \<^verbatim>\<open>elif\<close> branch \<^verbatim>\<open>k = kv\<close> binds the
  one-element list itself, and a list is not hashable: \<^verbatim>\<open>params[k] = ""\<close> raises
  \<^verbatim>\<open>TypeError\<close>.
\<close>

fun parse_params_list :: "string list \<Rightarrow> (string \<times> string) list \<Rightarrow> exn + (string \<times> string) list" where
  "parse_params_list [] params = Inr params"
| "parse_params_list (param # rest) params =
     (let kv = str_split CHR ''='' param in
      if length kv > 1 then
        (case kv of
           [k, v] \<Rightarrow>
             (if k \<noteq> [] then parse_params_list rest (AList.update k (urldecode v) params)
              else parse_params_list rest params)
         | _ \<Rightarrow> Inl ValueError)
      else if length kv = 1 then Inl TypeError
      else parse_params_list rest params)"

text \<open>\<^verbatim>\<open>_parse_elasticsearch8_urlparams(url)\<close>: the path and the parameter mapping.\<close>

definition parse_elasticsearch8_urlparams :: "string \<Rightarrow> exn + (string \<times> (string \<times> string) list)" where
  "parse_elasticsearch8_urlparams url =
     (let (path, query_params) = urlparse url in
      if query_params \<noteq> [] then
        (case parse_params_list (str_split CHR ''&'' query_params) [] of
           Inl e \<Rightarrow> Inl e
         | Inr params \<Rightarrow> Inr (path, params))
      else Inr (path, []))"

section \<open>Built-in operations on values\<close>

text \<open>Truth value of a Python object, as \<^verbatim>\<open>if x:\<close> and \<^verbatim>\<open>x or y\<close> test it.\<close>

fun truthy :: "pyval \<Rightarrow> bool" where
  "truthy PNone = False"
| "truthy (PBool b) = b"
| "truthy (PInt i) = (i \<noteq> 0)"
| "truthy (PStr s) = (s \<noteq> [])"
| "truthy (PList xs) = (xs \<noteq> [])"
| "truthy (PTuple xs) = (xs \<noteq> [])"
| "truthy (PDict d) = (d \<noteq> [])"

text \<open>
  \<^verbatim>\<open>data.get(key)\<close>: a dictionary answers with the value or \<^verbatim>\<open>None\<close>; the other
  values have no \<^verbatim>\<open>get\<close> attribute.
\<close>

fun py_get :: "pyval \<Rightarrow> string \<Rightarrow> exn + pyval" where
  "py_get (PDict d) k = Inr (case map_of d k of None \<Rightarrow> PNone | Some v \<Rightarrow> v)"
| "py_get PNone k = Inl AttributeError"
| "py_get (PBool b) k = Inl AttributeError"
| "py_get (PInt i) k = Inl AttributeError"
| "py_get (PStr s) k = Inl AttributeError"
| "py_get (PList xs) k = Inl AttributeError"
| "py_get (PTuple xs) k = Inl AttributeError"

text \<open>
  \<^verbatim>\<open>int(x)\<close>: an integer is itself, a boolean is 0 or 1, \<^verbatim>\<open>None\<close> and the containers
  raise \<^verbatim>\<open>TypeError\<close>. A string is read as a decimal literal or raises \<^verbatim>\<open>ValueError\<close>;
  which characters count as digits and as white space, and how long a literal may be,
  depends on the interpreter (its Unicode tables, its limit on the number of digits), so
  the reading of strings is the parameter \<open>str_int\<close>, \<open>None\<close> where the built-in raises.
\<close>

fun py_int :: "(string \<Rightarrow> int option) \<Rightarrow> pyval \<Rightarrow> exn + int" where
  "py_int str_int (PInt i) = Inr i"
| "py_int str_int (PBool b) = Inr (if b then 1 else 0)"
| "py_int str_int (PStr s) = (case str_int s of None \<Rightarrow> Inl ValueError | Some i \<Rightarrow> Inr i)"
| "py_int str_int PNone = Inl TypeError"
| "py_int str_int (PList xs) = Inl TypeError"
| "py_int str_int (PTuple xs) = Inl TypeError"
| "py_int str_int (PDict d) = Inl TypeError"

text \<open>
  Well-formed UTF-8, on byte values: the lead byte fixes the length of the sequence and
  the range of the second byte (no overlong form, no surrogate, nothing above U+10FFFF).
\<close>

definition cont_byte :: "nat \<Rightarrow> bool" where
  "cont_byte b = (128 \<le> b \<and> b \<le> 191)"

fun utf8_valid :: "nat list \<Rightarrow> bool" where
  "utf8_valid [] = True"
| "utf8_valid (b # bs) =
     (if b < 128 then utf8_valid bs
      else if 194 \<le> b \<and> b \<le> 223 then
        (case bs of c # r \<Rightarrow> cont_byte c \<and> utf8_valid r | _ \<Rightarrow> False)
      else if 224 \<le> b \<and> b \<le> 239 then
        (case bs of
           c # d # r \<Rightarrow>
             (if b = 224 then 160 \<le> c \<and> c \<le> 191
              else if b = 237 then 128 \<le> c \<and> c \<le> 159
              else cont_byte c) \<and> cont_byte d \<and> utf8_valid r
         | _ \<Rightarrow> False)
      else if 240 \<le> b \<and> b \<le> 244 then
        (case bs of
           c # d # e # r \<Rightarrow>
             (if b = 240 then 144 \<le> c \<and> c \<le> 191
              else if b = 244 then 128 \<le> c \<and> c \<le> 143
              else cont_byte c) \<and> cont_byte d \<and> cont_byte e \<and> utf8_valid r
         | _ \<Rightarrow> False)
      else False)"

text \<open>
  \<^verbatim>\<open>bytes.decode("utf-8")\<close>. A string is represented by its UTF-8 bytes, so decoding
  well-formed bytes returns them; ill-formed bytes raise.
\<close>

definition decode_utf8 :: "string \<Rightarrow> exn + string" where
  "decode_utf8 bs = (if utf8_valid (map of_char bs) then Inr bs else Inl UnicodeDecodeError)"

text \<open>Order of version tuples: lexicographic, a proper prefix is smaller.\<close>

fun tuple_less :: "int list \<Rightarrow> int list \<Rightarrow> bool" where
  "tuple_less [] [] = False"
| "tuple_less [] (y # ys) = True"
| "tuple_less (x # xs) [] = False"
| "tuple_less (x # xs) (y # ys) = (x < y \<or> (x = y \<and> tuple_less xs ys))"

section \<open>Spans, tracer, tracing association and configuration\<close>

text \<open>
  Modelled from the spec: the span of the tracer (section 6), which this module only
  reads and writes through \<^verbatim>\<open>set_tag\<close>, \<^verbatim>\<open>set_metric\<close>, \<^verbatim>\<open>error\<close>, \<^verbatim>\<open>sampled\<close> and
  \<^verbatim>\<open>resource\<close>. Tags and metrics are dictionaries in insertion order.
\<close>

record span =
  span_name :: string
  service :: "string option"
  span_type :: string
  resource :: string
  tags :: "(string \<times> pyval) list"
  metrics :: "(string \<times> int) list"
  error :: int
  sampled :: bool

definition set_tag :: "string \<Rightarrow> pyval \<Rightarrow> span \<Rightarrow> span" where
  "set_tag k v s = s\<lparr>tags := AList.update k v (tags s)\<rparr>"

definition set_metric :: "string \<Rightarrow> int \<Rightarrow> span \<Rightarrow> span" where
  "set_metric k n s = s\<lparr>metrics := AList.update k n (metrics s)\<rparr>"

definition get_tag :: "span \<Rightarrow> string \<Rightarrow> pyval option" where
  "get_tag s k = map_of (tags s) k"

definition get_metric :: "span \<Rightarrow> string \<Rightarrow> int option" where
  "get_metric s k = map_of (metrics s) k"

text \<open>
  The keys of \<^verbatim>\<open>ddtrace.ext.elasticsearch\<close>, \<^verbatim>\<open>ddtrace.ext.http\<close> and
  \<^verbatim>\<open>ddtrace.constants\<close>, which are not among the source files; the tests read the
  first five under these names.
\<close>

definition METHOD :: string where "METHOD = ''elasticsearch.method''"
definition URL :: string where "URL = ''elasticsearch.url''"
definition PARAMS :: string where "PARAMS = ''elasticsearch.params''"
definition BODY :: string where "BODY = ''elasticsearch.body''"
definition TOOK :: string where "TOOK = ''elasticsearch.took''"
definition STATUS_CODE :: string where "STATUS_CODE = ''http.status_code''"
definition QUERY_STRING :: string where "QUERY_STRING = ''http.query.string''"
definition SPAN_MEASURED_KEY :: string where "SPAN_MEASURED_KEY = ''_dd.measured''"
definition ANALYTICS_SAMPLE_RATE_KEY :: string where "ANALYTICS_SAMPLE_RATE_KEY = ''_dd1.sr.eausr''"

text \<open>
  Modelled from the spec: the tracer, as far as a call sees it: whether it is enabled,
  and the sampling decision it gives the span it opens.
\<close>

record tracer =
  tracer_enabled :: bool
  sampling_decision :: bool

definition trace :: "tracer \<Rightarrow> string \<Rightarrow> string option \<Rightarrow> string \<Rightarrow> span" where
  "trace t name svc ty =
     \<lparr>span_name = name, service = svc, span_type = ty, resource = name, tags = [],
      metrics = [], error = 0, sampled = sampling_decision t\<rparr>"

text \<open>
  Modelled from the spec: the Tracing Association (\<^verbatim>\<open>Pin\<close>), "a non-owning link from a
  transport instance to a tracer plus an enabled flag". \<^verbatim>\<open>Pin()\<close>, which \<^verbatim>\<open>_patch\<close>
  attaches to the transport class, is "initially tracer-less, disabled".
\<close>

record pin =
  pin_service :: "string option"
  pin_tracer :: "tracer option"

definition enabled :: "pin \<Rightarrow> bool" where
  "enabled p = (case pin_tracer p of None \<Rightarrow> False | Some t \<Rightarrow> tracer_enabled t)"

definition Pin :: pin where
  "Pin = \<lparr>pin_service = None, pin_tracer = None\<rparr>"

text \<open>\<^verbatim>\<open>config.elasticsearch\<close>, with the settings of section 6 of the spec.\<close>

record config =
  config_service :: "string option"
  default_service :: string
  trace_query_string :: bool
  analytics_sample_rate :: pyval

text \<open>
  Modelled from the spec: \<^verbatim>\<open>ext_service\<close> of \<^verbatim>\<open>ddtrace.contrib.trace_utils\<close>, "the
  configured or default service name".
\<close>

definition ext_service :: "pin \<Rightarrow> config \<Rightarrow> string option" where
  "ext_service p cfg =
     (case pin_service p of
        Some s \<Rightarrow> Some s
      | None \<Rightarrow> (case config_service cfg of Some s \<Rightarrow> Some s | None \<Rightarrow> Some (default_service cfg)))"

section \<open>The client library\<close>

text \<open>
  A variant module: its \<^verbatim>\<open>__version__\<close>, its \<^verbatim>\<open>_datadog_patch\<close> attribute (\<open>None\<close>
  while it has never been set) and its \<^verbatim>\<open>transport\<close> attribute, the address of a
  transport module, when it has one.
\<close>

record es_module =
  version :: "int list"
  datadog_patch :: "bool option"
  transport_attr :: "nat option"

definition version_ge8 :: "es_module \<Rightarrow> bool" where
  "version_ge8 es = (\<not> tuple_less (version es) [8, 0, 0])"

text \<open>
  The transport instance of a call: the pin that \<^verbatim>\<open>Pin.get_from(instance)\<close> finds (a
  lookup that changes nothing, as the spec has it), and
  the \<^verbatim>\<open>dumps\<close> of \<^verbatim>\<open>instance.serializer\<close> (a string) and of
  \<^verbatim>\<open>instance.serializers.default_serializer\<close> (bytes), \<open>None\<close> where the instance has
  no such attribute.
\<close>

record transport =
  get_from :: "pin option"
  serializer :: "(pyval \<Rightarrow> exn + string) option"
  default_serializer :: "(pyval \<Rightarrow> exn + string) option"

text \<open>
  The keyword arguments the interceptor reads: \<^verbatim>\<open>kwargs.get("params")\<close>, a mapping from
  strings to strings (\<open>None\<close> when absent or \<^verbatim>\<open>None\<close>), and \<^verbatim>\<open>kwargs.get("body")\<close>
  (\<open>PNone\<close> when absent).
\<close>

record kwargs =
  kw_params :: "(string \<times> string) list option"
  kw_body :: pyval

text \<open>
  The original \<^verbatim>\<open>perform_request\<close>: from the positional and keyword arguments and the
  state of the world to a result or an exception, and the new state of the world.
\<close>

type_synonym 'w original = "string list \<Rightarrow> kwargs \<Rightarrow> 'w \<Rightarrow> (exn + pyval) \<times> 'w"

section \<open>The request interceptor\<close>

text \<open>
  Lines 118 to 121 of \<^verbatim>\<open>_perform_request\<close>: the path and the parameters, by version.
  \<^verbatim>\<open>kwargs.get("params") or {}\<close> is the empty mapping for an absent, \<^verbatim>\<open>None\<close> or empty
  argument.
\<close>

definition request_params ::
  "es_module \<Rightarrow> string \<Rightarrow> kwargs \<Rightarrow> exn + (string \<times> (string \<times> string) list)" where
  "request_params es url kw =
     (if version_ge8 es then parse_elasticsearch8_urlparams url
      else Inr (url, (case kw_params kw of None \<Rightarrow> [] | Some ps \<Rightarrow> ps)))"

text \<open>
  The argument of \<^verbatim>\<open>span.set_tag(metadata.BODY, ...)\<close> on lines 134 and 136: the body
  serialized by the client's own serializer,
  \<^verbatim>\<open>instance.serializers.default_serializer.dumps(body).decode("utf-8")\<close> from 8.0.0 on
  and \<^verbatim>\<open>instance.serializer.dumps(body)\<close> before.
\<close>

definition serialize_body :: "es_module \<Rightarrow> transport \<Rightarrow> pyval \<Rightarrow> exn + string" where
  "serialize_body es inst body =
     (if version_ge8 es then
        (case default_serializer inst of
           None \<Rightarrow> Inl AttributeError
         | Some dumps \<Rightarrow> (case dumps body of Inl e \<Rightarrow> Inl e | Inr bs \<Rightarrow> decode_utf8 bs))
      else
        (case serializer inst of
           None \<Rightarrow> Inl AttributeError
         | Some dumps \<Rightarrow> dumps body))"

text \<open>Lines 132 to 136: the body tag, for \<^verbatim>\<open>GET\<close> and \<^verbatim>\<open>POST\<close> only.\<close>

definition tag_body :: "es_module \<Rightarrow> transport \<Rightarrow> string \<Rightarrow> pyval \<Rightarrow> span \<Rightarrow> exn + span" where
  "tag_body es inst method body sp =
     (if method = ''GET'' \<or> method = ''POST'' then
        (case serialize_body es inst body of
           Inl e \<Rightarrow> Inl e
         | Inr s \<Rightarrow> Inr (set_tag BODY (PStr s) sp))
      else Inr sp)"

text \<open>
  Lines 117 to 141: everything between the sampling test and \<^verbatim>\<open>quantize\<close>. An exception
  leaves with the span as it is at that moment.
\<close>

definition tag_request ::
  "es_module \<Rightarrow> config \<Rightarrow> transport \<Rightarrow> string list \<Rightarrow> kwargs \<Rightarrow> span \<Rightarrow> (exn \<times> span) + span" where
  "tag_request es cfg inst args kw sp =
     (case args of
        [method, url] \<Rightarrow>
          (case request_params es url kw of
             Inl e \<Rightarrow> Inl (e, sp)
           | Inr (path, params) \<Rightarrow>
               (let encoded_params = urlencode params;
                    body = kw_body kw;
                    sp1 = set_tag METHOD (PStr method) sp;
                    sp2 = set_tag URL (PStr path) sp1;
                    sp3 = set_tag PARAMS (PStr encoded_params) sp2;
                    sp4 = (if trace_query_string cfg
                           then set_tag QUERY_STRING (PStr encoded_params) sp3 else sp3)
                in case tag_body es inst method body sp4 of
                     Inl e \<Rightarrow> Inl (e, sp4)
                   | Inr sp5 \<Rightarrow>
                       Inr (set_tag ANALYTICS_SAMPLE_RATE_KEY (analytics_sample_rate cfg) sp5)))
      | _ \<Rightarrow> Inl (ValueError, sp))"

text \<open>
  The body of the \<^verbatim>\<open>try\<close> block, lines 154 to 168: \<open>Inl\<close> is an exception, with the
  value \<^verbatim>\<open>status\<close> has at that moment (\<^verbatim>\<open>None\<close> unless the result is a pair; the span is
  untouched until \<^verbatim>\<open>set_metric\<close>, the last statement), \<open>Inr\<close> is the normal end, with
  \<^verbatim>\<open>status\<close> and the span.
\<close>

definition try_extract_took ::
  "(string \<Rightarrow> int option) \<Rightarrow> es_module \<Rightarrow> pyval \<Rightarrow> span \<Rightarrow> (exn \<times> pyval) + (pyval \<times> span)" where
  "try_extract_took str_int es result sp =
     (let (status, data) = (case result of PTuple [s, d] \<Rightarrow> (s, d) | _ \<Rightarrow> (PNone, result)) in
      case py_get data ''took'' of
        Inl e \<Rightarrow> Inl (e, status)
      | Inr took \<Rightarrow>
          if version_ge8 es then
            (if took \<noteq> PNone then
               (case py_int str_int took of
                  Inl e \<Rightarrow> Inl (e, status)
                | Inr n \<Rightarrow> Inr (status, set_metric TOOK n sp))
             else Inr (status, sp))
          else
            (if truthy took then
               (case py_int str_int took of
                  Inl e \<Rightarrow> Inl (e, status)
                | Inr n \<Rightarrow> Inr (status, set_metric TOOK n sp))
             else Inr (status, sp)))"

text \<open>
  Lines 152 to 170: the soft-failing extraction of \<^verbatim>\<open>took\<close>, the \<^verbatim>\<open>try\<close> block with its
  \<^verbatim>\<open>except Exception: pass\<close>. The result is the value of \<^verbatim>\<open>status\<close> and the span; an
  exception leaves both as they are at that moment.
\<close>

definition extract_took ::
  "(string \<Rightarrow> int option) \<Rightarrow> es_module \<Rightarrow> pyval \<Rightarrow> span \<Rightarrow> pyval \<times> span" where
  "extract_took str_int es result sp =
     (case try_extract_took str_int es result sp of
        Inl (e, status) \<Rightarrow> (status, sp)
      | Inr (status, sp1) \<Rightarrow> (status, sp1))"

text \<open>
  Lines 145 to 175: the call of the original method on the quantized span. A
  \<^verbatim>\<open>TransportError\<close> is tagged and raised again, any other exception passes through.
\<close>

definition delegate ::
  "(string \<Rightarrow> int option) \<Rightarrow> es_module \<Rightarrow> 'w original \<Rightarrow> string list \<Rightarrow> kwargs \<Rightarrow> 'w \<Rightarrow> span \<Rightarrow> (exn + pyval) \<times> 'w \<times> span" where
  "delegate str_int es func args kw w sp =
     (case func args kw w of
        (Inl e, w') \<Rightarrow>
          (case e of
             TransportError cls sc \<Rightarrow>
               (Inl e, w',
                (set_tag STATUS_CODE (case sc of None \<Rightarrow> PInt 500 | Some c \<Rightarrow> c) sp)\<lparr>error := 1\<rparr>)
           | _ \<Rightarrow> (Inl e, w', sp))
      | (Inr result, w') \<Rightarrow>
          (let (status, sp1) = extract_took str_int es result sp;
               sp2 = (if truthy status then set_tag STATUS_CODE status sp1 else sp1)
           in (Inr result, w', sp2)))"

text \<open>
  The body of the \<^verbatim>\<open>with\<close> block (lines 111 to 175), on the span the tracer has opened:
  the outcome, the world and the span as the block leaves it. \<open>quantize\<close> is the
  transform of \<^verbatim>\<open>.quantize\<close>, which the spec leaves opaque.
\<close>

definition traced_request ::
  "(string \<Rightarrow> int option) \<Rightarrow> es_module \<Rightarrow> config \<Rightarrow> (span \<Rightarrow> span) \<Rightarrow> 'w original \<Rightarrow> transport \<Rightarrow> string list \<Rightarrow> kwargs
     \<Rightarrow> 'w \<Rightarrow> span \<Rightarrow> (exn + pyval) \<times> 'w \<times> span" where
  "traced_request str_int es cfg quantize func inst args kw w sp0 =
     (let sp = set_tag SPAN_MEASURED_KEY PNone sp0 in
      if \<not> sampled sp then (case func args kw w of (r, w') \<Rightarrow> (r, w', sp))
      else
        (case tag_request es cfg inst args kw sp of
           Inl (e, sp1) \<Rightarrow> (Inl e, w, sp1)
         | Inr sp1 \<Rightarrow> delegate str_int es func args kw w (quantize sp1)))"

text \<open>
  \<^verbatim>\<open>_perform_request(func, instance, args, kwargs)\<close> of the variant \<open>es\<close>, under an
  interpreter whose \<^verbatim>\<open>int\<close> reads strings as \<open>str_int\<close>. The state is
  the world of the original method and the spans the tracer has closed so far; leaving
  the \<^verbatim>\<open>with\<close> block, by return or by exception, closes the span.
\<close>

definition perform_request ::
  "(string \<Rightarrow> int option) \<Rightarrow> es_module \<Rightarrow> config \<Rightarrow> (span \<Rightarrow> span) \<Rightarrow> 'w original \<Rightarrow> transport \<Rightarrow> string list \<Rightarrow> kwargs
     \<Rightarrow> 'w \<times> span list \<Rightarrow> (exn + pyval) \<times> 'w \<times> span list" where
  "perform_request str_int es cfg quantize func inst args kw st =
     (case st of (w, closed) \<Rightarrow>
        (case get_from inst of
           None \<Rightarrow> (case func args kw w of (r, w') \<Rightarrow> (r, w', closed))
         | Some p \<Rightarrow>
             if \<not> enabled p then (case func args kw w of (r, w') \<Rightarrow> (r, w', closed))
             else
               (case pin_tracer p of
                  None \<Rightarrow> (Inl AttributeError, w, closed)
                | Some t \<Rightarrow>
                    (case traced_request str_int es cfg quantize func inst args kw w
                            (trace t ''elasticsearch.query'' (ext_service p cfg) ''elasticsearch'') of
                       (r, w', sp) \<Rightarrow> (r, w', closed @ [sp])))))"

text \<open>
  The span as the \<^verbatim>\<open>with\<close> block has it after line 111: opened by the pin's tracer and
  marked as measured.
\<close>

definition opened_span :: "pin \<Rightarrow> config \<Rightarrow> tracer \<Rightarrow> span" where
  "opened_span p cfg t =
     set_tag SPAN_MEASURED_KEY PNone
       (trace t ''elasticsearch.query'' (ext_service p cfg) ''elasticsearch'')"

section \<open>The patch controller\<close>

text \<open>
  The \<^verbatim>\<open>perform_request\<close> attribute of a transport class: the client's own function,
  or a wrapper that \<^verbatim>\<open>_patch\<close> has put around the previous value, labelled with the
  name of the variant whose interceptor it runs. Modelled from the spec:
  \<^verbatim>\<open>wrap_function_wrapper\<close> of \<^verbatim>\<open>ddtrace.vendor.wrapt\<close>, which is not among the source
  files, "wraps the transport class's request-performing method with the Interceptor".
\<close>

datatype py_function = Original | Wrapped string py_function

text \<open>
  A \<^verbatim>\<open>Transport\<close> class, and the store \<^verbatim>\<open>patch\<close> and \<^verbatim>\<open>unpatch\<close> work on: the variant
  modules that can be imported, by name, the transport classes by the address of their
  module, and the address of \<^verbatim>\<open>elastic_transport._transport\<close>. Two variants may resolve
  to the same transport class.
\<close>

record transport_class =
  tc_perform_request :: py_function
  tc_pin :: "pin option"

record heap =
  modules :: "string \<Rightarrow> es_module option"
  transports :: "nat \<Rightarrow> transport_class"
  elastic_transport :: nat

text \<open>
  \<^verbatim>\<open>_es_modules()\<close>: the variants that import, in the order of \<^verbatim>\<open>module_names\<close>.
\<close>

definition module_names :: "string list" where
  "module_names =
     [''elasticsearch'', ''elasticsearch1'', ''elasticsearch2'', ''elasticsearch5'',
      ''elasticsearch6'', ''elasticsearch7'', ''elasticsearch8'']"

definition es_modules :: "heap \<Rightarrow> string list" where
  "es_modules h = filter (\<lambda>name. modules h name \<noteq> None) module_names"

text \<open>
  \<^verbatim>\<open>_determine_transport_module(elasticsearch)\<close>: the variant's own \<^verbatim>\<open>transport\<close>
  attribute, else the companion module, which every variant without the attribute
  depends on.
\<close>

definition determine_transport_module :: "heap \<Rightarrow> es_module \<Rightarrow> nat" where
  "determine_transport_module h es =
     (case transport_attr es of Some a \<Rightarrow> a | None \<Rightarrow> elastic_transport h)"

text \<open>
  \<^verbatim>\<open>getattr(elasticsearch, "_datadog_patch", False)\<close>.
\<close>

definition is_patched :: "es_module \<Rightarrow> bool" where
  "is_patched es = (case datadog_patch es of None \<Rightarrow> False | Some b \<Rightarrow> b)"

text \<open>
  Modelled from the spec: \<^verbatim>\<open>unwrap\<close> of \<^verbatim>\<open>ddtrace.internal.utils.wrappers\<close>, which is
  not among the source files: "restore the original method", the function under the
  wrapper. A function that is not a wrapper has nothing under it.
\<close>

fun unwrap :: "py_function \<Rightarrow> exn + py_function" where
  "unwrap (Wrapped name m) = Inr m"
| "unwrap Original = Inl AttributeError"

text \<open>
  \<^verbatim>\<open>_patch(elasticsearch)\<close>, on the variant called \<open>name\<close>: nothing when the flag is
  set; else set the flag, wrap \<^verbatim>\<open>Transport.perform_request\<close> and attach \<^verbatim>\<open>Pin()\<close> to the
  transport class.
\<close>

definition patch_module :: "string \<Rightarrow> heap \<Rightarrow> heap" where
  "patch_module name h =
     (case modules h name of
        None \<Rightarrow> h
      | Some es \<Rightarrow>
          if is_patched es then h
          else
            (let h1 = h\<lparr>modules := (modules h)(name \<mapsto> es\<lparr>datadog_patch := Some True\<rparr>)\<rparr>;
                 a = determine_transport_module h1 es;
                 tc = transports h1 a
             in h1\<lparr>transports := (transports h1)
                      (a := tc\<lparr>tc_perform_request := Wrapped name (tc_perform_request tc),
                               tc_pin := Some Pin\<rparr>)\<rparr>))"

text \<open>
  \<^verbatim>\<open>_unpatch(elasticsearch)\<close>: when the flag is set, clear it and unwrap the method.
\<close>

definition unpatch_module :: "string \<Rightarrow> heap \<Rightarrow> exn + heap" where
  "unpatch_module name h =
     (case modules h name of
        None \<Rightarrow> Inr h
      | Some es \<Rightarrow>
          if is_patched es then
            (let h1 = h\<lparr>modules := (modules h)(name \<mapsto> es\<lparr>datadog_patch := Some False\<rparr>)\<rparr>;
                 a = determine_transport_module h1 es;
                 tc = transports h1 a
             in case unwrap (tc_perform_request tc) of
                  Inl e \<Rightarrow> Inl e
                | Inr m \<Rightarrow>
                    Inr (h1\<lparr>transports := (transports h1)(a := tc\<lparr>tc_perform_request := m\<rparr>)\<rparr>))
          else Inr h)"

text \<open>
  \<^verbatim>\<open>patch()\<close> and \<^verbatim>\<open>unpatch()\<close>: the loops over \<^verbatim>\<open>_es_modules()\<close>; an exception ends the
  loop of \<^verbatim>\<open>unpatch\<close>.
\<close>

definition patch :: "heap \<Rightarrow> heap" where
  "patch h = fold patch_module (es_modules h) h"

fun unpatch_each :: "string list \<Rightarrow> heap \<Rightarrow> exn + heap" where
  "unpatch_each [] h = Inr h"
| "unpatch_each (name # names) h =
     (case unpatch_module name h of
        Inl e \<Rightarrow> Inl e
      | Inr h' \<Rightarrow> unpatch_each names h')"

definition unpatch :: "heap \<Rightarrow> exn + heap" where
  "unpatch h = unpatch_each (es_modules h) h"

text \<open>
  What the properties below observe of a store: the method of a transport class, whether
  a variant is marked as patched, the transport class a variant resolves to, and what
  lies under a number of wrappers.
\<close>

definition meth :: "heap \<Rightarrow> nat \<Rightarrow> py_function" where
  "meth h a = tc_perform_request (transports h a)"

definition patched :: "heap \<Rightarrow> string \<Rightarrow> bool" where
  "patched h name = (case modules h name of None \<Rightarrow> False | Some es \<Rightarrow> is_patched es)"

definition transport_of :: "heap \<Rightarrow> string \<Rightarrow> nat" where
  "transport_of h name =
     (case modules h name of None \<Rightarrow> elastic_transport h | Some es \<Rightarrow> determine_transport_module h es)"

fun unwrap_times :: "nat \<Rightarrow> py_function \<Rightarrow> py_function option" where
  "unwrap_times 0 m = Some m"
| "unwrap_times (Suc k) (Wrapped name m) = unwrap_times k m"
| "unwrap_times (Suc k) Original = None"

section \<open>Example inputs\<close>

text \<open>
  Concrete collaborators, on which the theorems below are instantiated: a tracer that
  samples, a pin on it, a configuration, two variants, a serializer that knows a few
  bodies, and original methods that count their calls in the world.
\<close>

definition example_tracer :: tracer where
  "example_tracer = \<lparr>tracer_enabled = True, sampling_decision = True\<rparr>"

definition example_pin :: pin where
  "example_pin = \<lparr>pin_service = None, pin_tracer = Some example_tracer\<rparr>"

definition example_config :: config where
  "example_config =
     \<lparr>config_service = None, default_service = ''elasticsearch'',
      trace_query_string = True, analytics_sample_rate = PNone\<rparr>"

definition es7 :: es_module where
  "es7 = \<lparr>version = [7, 17, 9], datadog_patch = Some True, transport_attr = Some 0\<rparr>"

definition es8 :: es_module where
  "es8 = \<lparr>version = [8, 0, 0], datadog_patch = Some True, transport_attr = None\<rparr>"

definition example_dumps :: "pyval \<Rightarrow> exn + string" where
  "example_dumps body =
     (if body = PNone then Inr ''null''
      else if body = PDict [(''query'', PDict [(''match_all'', PDict [])])]
        then Inr ''{\"query\":{\"match_all\":{}}}''
      else Inl (OtherError ''SerializationError''))"

definition example_transport :: transport where
  "example_transport =
     \<lparr>get_from = Some example_pin, serializer = Some example_dumps,
      default_serializer = Some example_dumps\<rparr>"

definition untraced_transport :: transport where
  "untraced_transport =
     \<lparr>get_from = None, serializer = Some example_dumps, default_serializer = Some example_dumps\<rparr>"

definition disabled_transport :: transport where
  "disabled_transport =
     \<lparr>get_from = Some Pin, serializer = Some example_dumps, default_serializer = Some example_dumps\<rparr>"

definition returning :: "pyval \<Rightarrow> nat original" where
  "returning result args kw w = (Inr result, Suc w)"

definition raising :: "exn \<Rightarrow> nat original" where
  "raising e args kw w = (Inl e, Suc w)"

definition no_kwargs :: kwargs where
  "no_kwargs = \<lparr>kw_params = None, kw_body = PNone\<rparr>"

definition search_kwargs :: kwargs where
  "search_kwargs =
     \<lparr>kw_params = Some [(''size'', ''100'')],
      kw_body = PDict [(''query'', PDict [(''match_all'', PDict [])])]\<rparr>"

definition bad_body_kwargs :: kwargs where
  "bad_body_kwargs = \<lparr>kw_params = None, kw_body = PList [PNone]\<rparr>"

definition keep_span :: "span \<Rightarrow> span" where
  "keep_span sp = sp"

text \<open>
  A store with three variants that have never been patched; \<^verbatim>\<open>elasticsearch\<close> and
  \<^verbatim>\<open>elasticsearch8\<close> have no \<^verbatim>\<open>transport\<close> attribute and share the companion module.
\<close>

definition unpatched_module :: "int list \<Rightarrow> nat option \<Rightarrow> es_module" where
  "unpatched_module v tr = \<lparr>version = v, datadog_patch = None, transport_attr = tr\<rparr>"

definition example_heap :: heap where
  "example_heap =
     \<lparr>modules = [''elasticsearch'' \<mapsto> unpatched_module [8, 0, 0] None,
                 ''elasticsearch7'' \<mapsto> unpatched_module [7, 17, 9] (Some 0),
                 ''elasticsearch8'' \<mapsto> unpatched_module [8, 0, 0] None],
      transports = (\<lambda>a. \<lparr>tc_perform_request = Original, tc_pin = None\<rparr>),
      elastic_transport = 1\<rparr>"

section \<open>Properties of the parser\<close>

lemma str_split_not_Nil: "str_split sep s \<noteq> []"
  by (induction s) (auto split: list.splits)

lemma length_str_split: "length (str_split sep s) = Suc (count_list s sep)"
  by (induction s) (auto split: list.splits simp: str_split_not_Nil)

text \<open>
  The loop raises as soon as the list holds a parameter that \<^verbatim>\<open>split("=")\<close> does not cut
  into exactly two pieces: no such parameter is ever skipped.
\<close>

lemma parse_params_list_raises:
  assumes "p \<in> set ps" and "length (str_split CHR ''='' p) \<noteq> 2"
  shows "parse_params_list ps acc = Inl ValueError \<or> parse_params_list ps acc = Inl TypeError"
  using assms
proof (induction ps arbitrary: acc)
  case Nil
  then show ?case by simp
next
  case (Cons q qs)
  show ?case
  proof (cases "length (str_split CHR ''='' q) = 2")
    case True
    then obtain k v where kv: "str_split CHR ''='' q = [k, v]"
      by (auto simp: length_Suc_conv numeral_2_eq_2)
    from True Cons.prems have "p \<in> set qs" by auto
    then have "\<And>a. parse_params_list qs a = Inl ValueError \<or> parse_params_list qs a = Inl TypeError"
      using Cons.IH Cons.prems(2) by blast
    then show ?thesis using kv by (simp add: Let_def)
  next
    case False
    have ne: "str_split CHR ''='' q \<noteq> []" by (rule str_split_not_Nil)
    show ?thesis
    proof (cases "str_split CHR ''='' q")
      case Nil
      with ne show ?thesis by simp
    next
      case (Cons a as)
      note c1 = this
      show ?thesis
      proof (cases as)
        case Nil
        with c1 show ?thesis by (simp add: Let_def)
      next
        case (Cons b bs)
        with c1 False obtain c cs where "bs = c # cs" by (cases bs) auto
        with c1 Cons show ?thesis by (simp add: Let_def)
      qed
    qed
  qed
qed

text \<open>
  Claim C5. For a URL whose query string is \<^verbatim>\<open>sort=name%3Adesc&size=100\<close>, the parser
  returns the URL's path with the mapping \<^verbatim>\<open>{"sort": "name:desc", "size": "100"}\<close>, and
  \<^verbatim>\<open>urlencode\<close> of that mapping, which the interceptor stores in the params tag, is the
  query string again.
\<close>

theorem parse_urlencode_roundtrip:
  assumes "snd (urlparse url) = ''sort=name%3Adesc&size=100''"
  shows "parse_elasticsearch8_urlparams url
           = Inr (fst (urlparse url), [(''sort'', ''name:desc''), (''size'', ''100'')])
       \<and> urlencode [(''sort'', ''name:desc''), (''size'', ''100'')] = snd (urlparse url)"
proof -
  have e: "urlencode [(''sort'', ''name:desc''), (''size'', ''100'')] = ''sort=name%3Adesc&size=100''"
    by (simp add: urlencode_def quote_plus_def quote_char_def always_safe_def hex_upper_def)
  have p: "parse_params_list (str_split CHR ''&'' ''sort=name%3Adesc&size=100'') []
             = Inr [(''sort'', ''name:desc''), (''size'', ''100'')]"
    by code_simp
  show ?thesis using assms p e
    by (cases "urlparse url") (simp add: parse_elasticsearch8_urlparams_def)
qed

theorem parse_urlencode_roundtrip_witness:
  "snd (urlparse ''/ddtrace_index/_search?sort=name%3Adesc&size=100'') = ''sort=name%3Adesc&size=100''
   \<and> parse_elasticsearch8_urlparams ''/ddtrace_index/_search?sort=name%3Adesc&size=100''
       = Inr (''/ddtrace_index/_search'', [(''sort'', ''name:desc''), (''size'', ''100'')])
   \<and> urlencode [(''sort'', ''name:desc''), (''size'', ''100'')] = ''sort=name%3Adesc&size=100''"
proof -
  have q: "snd (urlparse ''/ddtrace_index/_search?sort=name%3Adesc&size=100'')
             = ''sort=name%3Adesc&size=100''"
    by (simp add: urlparse_def)
  have f: "fst (urlparse ''/ddtrace_index/_search?sort=name%3Adesc&size=100'')
             = ''/ddtrace_index/_search''"
    by (simp add: urlparse_def)
  from parse_urlencode_roundtrip [OF q] q f show ?thesis by simp
qed

text \<open>
  Claim C6. The claim expects the bare parameter of \<^verbatim>\<open>/_search?pretty\<close> to map to the
  empty string. The code binds \<^verbatim>\<open>k\<close> to the list \<^verbatim>\<open>["pretty"]\<close> and uses it as the
  dictionary key, so the call raises \<^verbatim>\<open>TypeError\<close> and returns no mapping.
\<close>

theorem parse_bare_parameter_raises:
  "parse_elasticsearch8_urlparams ''/_search?pretty'' = Inl TypeError"
  by (simp add: parse_elasticsearch8_urlparams_def urlparse_def)

text \<open>
  Claim C10. When some parameter of the query string holds two or more \<^verbatim>\<open>=\<close>, the parser
  returns no mapping: it raises \<^verbatim>\<open>ValueError\<close> at that parameter (the split has three or
  more pieces), unless an earlier parameter has already raised.
\<close>

theorem parse_urlparams_not_total:
  assumes "p \<in> set (str_split CHR ''&'' (snd (urlparse url)))"
    and "2 \<le> count_list p CHR ''=''"
  shows "parse_elasticsearch8_urlparams url = Inl ValueError
       \<or> parse_elasticsearch8_urlparams url = Inl TypeError"
proof -
  obtain path q where pq: "urlparse url = (path, q)" by (cases "urlparse url")
  have len: "length (str_split CHR ''='' p) \<noteq> 2"
    using assms(2) by (simp add: length_str_split)
  have "q \<noteq> []"
  proof
    assume "q = []"
    with assms(1) pq have "p = []" by simp
    with assms(2) show False by simp
  qed
  moreover from assms(1) pq have "p \<in> set (str_split CHR ''&'' q)" by simp
  from parse_params_list_raises [OF this len, of "[]"]
  have "parse_params_list (str_split CHR ''&'' q) [] = Inl ValueError
      \<or> parse_params_list (str_split CHR ''&'' q) [] = Inl TypeError" .
  ultimately show ?thesis
    using pq by (auto simp: parse_elasticsearch8_urlparams_def)
qed

theorem parse_urlparams_not_total_witness:
  "''a=b=c'' \<in> set (str_split CHR ''&'' (snd (urlparse ''/_search?a=b=c'')))
   \<and> 2 \<le> count_list ''a=b=c'' CHR ''=''
   \<and> parse_elasticsearch8_urlparams ''/_search?a=b=c'' = Inl ValueError"
proof -
  have a: "''a=b=c'' \<in> set (str_split CHR ''&'' (snd (urlparse ''/_search?a=b=c'')))"
    by (simp add: urlparse_def)
  have b: "2 \<le> count_list ''a=b=c'' CHR ''=''" by simp
  have c: "parse_elasticsearch8_urlparams ''/_search?a=b=c'' \<noteq> Inl TypeError"
    by (simp add: parse_elasticsearch8_urlparams_def urlparse_def)
  from parse_urlparams_not_total [OF a b] a b c show ?thesis by simp
qed

section \<open>Properties of the request interceptor\<close>

lemma sampled_opened_span: "sampled (opened_span p cfg t) = sampling_decision t"
  by (simp add: opened_span_def set_tag_def trace_def)

lemma get_tag_opened_span_BODY: "get_tag (opened_span p cfg t) BODY = None"
  by (simp add: opened_span_def set_tag_def trace_def get_tag_def BODY_def SPAN_MEASURED_KEY_def)

lemma metrics_opened_span: "metrics (opened_span p cfg t) = []"
  by (simp add: opened_span_def set_tag_def trace_def)

lemma get_tag_set_tag: "get_tag (set_tag k v sp) k' = (if k' = k then Some v else get_tag sp k')"
  by (simp add: get_tag_def set_tag_def AList.update_conv')

lemma get_tag_error_update: "get_tag (sp\<lparr>error := e\<rparr>) k = get_tag sp k"
  by (simp add: get_tag_def)

lemma metrics_set_tag: "metrics (set_tag k v sp) = metrics sp"
  by (simp add: set_tag_def)

lemma tags_set_metric: "tags (set_metric k n sp) = tags sp"
  by (simp add: set_metric_def)

lemma get_tag_set_metric: "get_tag (set_metric k n sp) k' = get_tag sp k'"
  by (simp add: get_tag_def set_metric_def)


lemmas tag_keys = METHOD_def URL_def PARAMS_def QUERY_STRING_def BODY_def
  ANALYTICS_SAMPLE_RATE_KEY_def STATUS_CODE_def SPAN_MEASURED_KEY_def

lemma perform_request_traced:
  assumes "get_from inst = Some p" and "pin_tracer p = Some t" and "tracer_enabled t"
  shows "perform_request str_int es cfg quantize func inst args kw (w, closed) =
           (case traced_request str_int es cfg quantize func inst args kw w
                   (trace t ''elasticsearch.query'' (ext_service p cfg) ''elasticsearch'') of
              (r, w', sp) \<Rightarrow> (r, w', closed @ [sp]))"
  using assms by (simp add: perform_request_def enabled_def)

lemma traced_request_sampled:
  assumes "sampling_decision t"
  shows "traced_request str_int es cfg quantize func inst args kw w
            (trace t ''elasticsearch.query'' (ext_service p cfg) ''elasticsearch'') =
           (case tag_request es cfg inst args kw (opened_span p cfg t) of
              Inl (e, sp1) \<Rightarrow> (Inl e, w, sp1)
            | Inr sp1 \<Rightarrow> delegate str_int es func args kw w (quantize sp1))"
  using assms sampled_opened_span [of p cfg t]
  by (simp add: traced_request_def opened_span_def Let_def)

lemma perform_request_sampled:
  assumes "get_from inst = Some p" and "pin_tracer p = Some t" and "tracer_enabled t"
    and "sampling_decision t"
  shows "perform_request str_int es cfg quantize func inst args kw (w, closed) =
           (case (case tag_request es cfg inst args kw (opened_span p cfg t) of
                    Inl (e, sp1) \<Rightarrow> (Inl e, w, sp1)
                  | Inr sp1 \<Rightarrow> delegate str_int es func args kw w (quantize sp1)) of
              (r, w', sp) \<Rightarrow> (r, w', closed @ [sp]))"
  using assms by (simp add: perform_request_traced traced_request_sampled)

text \<open>What the tagging phase leaves on the span when nothing raises.\<close>

lemma tag_request_ok:
  assumes "args = [method, url]"
    and "request_params es url kw = Inr (path, ps)"
    and "method = ''GET'' \<or> method = ''POST'' \<longrightarrow> serialize_body es inst (kw_body kw) = Inr b"
  shows "\<exists>sp1. tag_request es cfg inst args kw sp = Inr sp1
            \<and> get_tag sp1 METHOD = Some (PStr method)
            \<and> get_tag sp1 URL = Some (PStr path)
            \<and> get_tag sp1 PARAMS = Some (PStr (urlencode ps))
            \<and> get_tag sp1 BODY = (if method = ''GET'' \<or> method = ''POST''
                                   then Some (PStr b) else get_tag sp BODY)
            \<and> metrics sp1 = metrics sp"
  using assms
  by (auto simp: tag_request_def tag_body_def Let_def get_tag_set_tag tag_keys metrics_set_tag)

lemma tag_request_serialization_error:
  assumes "args = [method, url]"
    and "request_params es url kw = Inr (path, ps)"
    and "method = ''GET'' \<or> method = ''POST''"
    and "serialize_body es inst (kw_body kw) = Inl e"
  shows "\<exists>sp1. tag_request es cfg inst args kw sp = Inl (e, sp1)"
  using assms
  by (auto simp: tag_request_def tag_body_def Let_def)

lemma tags_extract_took: "tags (snd (extract_took str_int es result sp)) = tags sp"
  by (auto simp: extract_took_def try_extract_took_def Let_def tags_set_metric
        split: prod.splits sum.splits if_splits)

lemma delegate_result:
  "fst (delegate str_int es func args kw w sp) = fst (func args kw w)
   \<and> fst (snd (delegate str_int es func args kw w sp)) = snd (func args kw w)"
  by (auto simp: delegate_def Let_def split: prod.splits sum.splits exn.splits)

lemma delegate_get_tag:
  assumes "k \<noteq> STATUS_CODE"
  shows "get_tag (snd (snd (delegate str_int es func args kw w sp))) k = get_tag sp k"
proof -
  have "\<And>result st sp1. extract_took str_int es result sp = (st, sp1) \<Longrightarrow> get_tag sp1 k = get_tag sp k"
    using tags_extract_took [of str_int es _ sp] by (simp add: get_tag_def) (metis snd_conv)
  then show ?thesis using assms
    by (auto simp: delegate_def Let_def get_tag_set_tag get_tag_error_update
          split: prod.splits sum.splits exn.splits)
qed

text \<open>
  Claim C2. In a traced and sampled call that reaches the delegation, when the original
  method raises a \<^verbatim>\<open>TransportError\<close>, the very same exception leaves the interceptor
  with the world as the original method left it, and the one span that is closed has
  \<^verbatim>\<open>error = 1\<close> and a status-code tag: the \<^verbatim>\<open>status_code\<close> attribute of the
  exception when it has one, 500 otherwise.
\<close>

theorem transport_error_tagged_and_reraised:
  assumes "get_from inst = Some p" and "pin_tracer p = Some t" and "tracer_enabled t"
    and "sampling_decision t"
    and "args = [method, url]"
    and "request_params es url kw = Inr (path, ps)"
    and "method = ''GET'' \<or> method = ''POST'' \<longrightarrow> serialize_body es inst (kw_body kw) = Inr b"
    and "func args kw w = (Inl (TransportError cls sc), w')"
  shows "\<exists>sp'. perform_request str_int es cfg quantize func inst args kw (w, closed)
                  = (Inl (TransportError cls sc), w', closed @ [sp'])
              \<and> error sp' = 1
              \<and> get_tag sp' STATUS_CODE = Some (case sc of None \<Rightarrow> PInt 500 | Some c \<Rightarrow> c)"
proof -
  from tag_request_ok [OF assms(5-7)] obtain sp1
    where "tag_request es cfg inst args kw (opened_span p cfg t) = Inr sp1" by blast
  with assms(1-4,8) show ?thesis
    by (simp add: perform_request_sampled delegate_def get_tag_set_tag get_tag_error_update)
qed

theorem transport_error_tagged_and_reraised_witness:
  "get_from example_transport = Some example_pin \<and> pin_tracer example_pin = Some example_tracer
   \<and> tracer_enabled example_tracer \<and> sampling_decision example_tracer
   \<and> request_params es8 ''/test-index'' no_kwargs = Inr (''/test-index'', [])
   \<and> serialize_body es8 example_transport (kw_body no_kwargs) = Inr ''null''
   \<and> (\<forall>str_int. \<exists>sp'. perform_request str_int es8 example_config keep_span
                (raising (TransportError ''ConnectionError'' None)) example_transport
                [''GET'', ''/test-index''] no_kwargs (0, [])
              = (Inl (TransportError ''ConnectionError'' None), Suc 0, [sp'])
            \<and> error sp' = 1 \<and> get_tag sp' STATUS_CODE = Some (PInt 500))"
proof -
  have a: "get_from example_transport = Some example_pin"
    by (simp add: example_transport_def)
  have b: "pin_tracer example_pin = Some example_tracer" by (simp add: example_pin_def)
  have c: "tracer_enabled example_tracer" "sampling_decision example_tracer"
    by (simp_all add: example_tracer_def)
  have d: "request_params es8 ''/test-index'' no_kwargs = Inr (''/test-index'', [])"
    by (simp add: request_params_def es8_def version_ge8_def parse_elasticsearch8_urlparams_def
          urlparse_def)
  have e: "serialize_body es8 example_transport (kw_body no_kwargs) = Inr ''null''"
    by (simp add: serialize_body_def es8_def version_ge8_def example_transport_def
          example_dumps_def no_kwargs_def decode_utf8_def)
  then have e': "''GET'' = ''GET'' \<or> ''GET'' = ''POST''
      \<longrightarrow> serialize_body es8 example_transport (kw_body no_kwargs) = Inr ''null''" by simp
  have f: "raising (TransportError ''ConnectionError'' None) [''GET'', ''/test-index''] no_kwargs 0
             = (Inl (TransportError ''ConnectionError'' None), Suc 0)"
    by (simp add: raising_def)
  have main: "\<exists>sp'. perform_request str_int es8 example_config keep_span
                (raising (TransportError ''ConnectionError'' None)) example_transport
                [''GET'', ''/test-index''] no_kwargs (0, [])
              = (Inl (TransportError ''ConnectionError'' None), Suc 0, [sp'])
            \<and> error sp' = 1 \<and> get_tag sp' STATUS_CODE = Some (PInt 500)" for str_int
    using transport_error_tagged_and_reraised [where str_int = str_int
        and func = "raising (TransportError ''ConnectionError'' None)" and w = 0
        and cfg = example_config and quantize = keep_span and closed = "[]",
        OF a b c refl d e' f]
    by simp
  from main a b c d e show ?thesis by simp
qed

lemma example_pin_facts:
  "get_from example_transport = Some example_pin"
  "pin_tracer example_pin = Some example_tracer"
  "tracer_enabled example_tracer"
  "sampling_decision example_tracer"
  by (simp_all add: example_transport_def example_pin_def example_tracer_def)

text \<open>
  The ways in which the \<^verbatim>\<open>try\<close> block raises: the body has no \<^verbatim>\<open>get\<close>, or \<^verbatim>\<open>int(took)\<close>
  raises. Whether it raises does not depend on the span, and the \<^verbatim>\<open>except\<close> clause
  leaves the span as it was.
\<close>

lemma extract_took_raised:
  assumes "try_extract_took str_int es result sp = Inl (e, st)"
  shows "extract_took str_int es result sp = (st, sp)"
  using assms by (simp add: extract_took_def)

lemma try_extract_took_raises_any_span:
  assumes "try_extract_took str_int es result s0 = Inl x"
  shows "try_extract_took str_int es result sp = Inl x"
  using assms
  by (auto simp: try_extract_took_def Let_def split: prod.splits sum.splits if_splits)

lemma try_extract_took_no_get:
  assumes "\<And>d. result \<noteq> PDict d" and "\<And>s d. result \<noteq> PTuple [s, PDict d]"
  shows "\<exists>st. try_extract_took str_int es result sp = Inl (AttributeError, st)"
proof (cases result)
  case (PTuple xs)
  show ?thesis
  proof (cases xs)
    case Nil
    with PTuple show ?thesis by (simp add: try_extract_took_def)
  next
    case (Cons a as)
    note c1 = this
    show ?thesis
    proof (cases as)
      case Nil
      with PTuple c1 show ?thesis by (simp add: try_extract_took_def)
    next
      case (Cons b bs)
      show ?thesis
      proof (cases bs)
        case Nil
        with PTuple c1 Cons assms(2) show ?thesis
          by (cases b) (simp_all add: try_extract_took_def)
      next
        case (Cons c cs)
        with PTuple c1 \<open>as = b # bs\<close> show ?thesis by (simp add: try_extract_took_def)
      qed
    qed
  qed
qed (use assms in \<open>simp_all add: try_extract_took_def\<close>)

lemma try_extract_took_int_raises:
  assumes "result = PDict d \<or> result = PTuple [st, PDict d]"
    and "map_of d ''took'' = Some took"
    and "if version_ge8 es then took \<noteq> PNone else truthy took"
    and "py_int str_int took = Inl e"
  shows "\<exists>st'. try_extract_took str_int es result sp = Inl (e, st')"
  using assms by (auto simp: try_extract_took_def split: if_splits)

lemma delegate_success:
  assumes "func args kw w = (Inr result, w')"
  shows "delegate str_int es func args kw w sp =
           (Inr result, w',
            (if truthy (fst (extract_took str_int es result sp))
             then set_tag STATUS_CODE (fst (extract_took str_int es result sp))
                    (snd (extract_took str_int es result sp))
             else snd (extract_took str_int es result sp)))"
  using assms by (simp add: delegate_def Let_def split: prod.splits)

text \<open>
  Claim C7. In a traced and sampled call that reaches the delegation, when the original
  method returns, the interceptor returns that very result, whatever its shape: nothing
  raised while \<^verbatim>\<open>took\<close> is extracted gets out. Whenever the \<^verbatim>\<open>try\<close> block raises, the
  span has no \<^verbatim>\<open>took\<close> metric, provided \<open>quantize\<close> records none itself; so it is when
  the result body has no \<^verbatim>\<open>get\<close> (it is neither a dictionary nor a pair whose second
  component is one), and when \<^verbatim>\<open>int(took)\<close> raises on the field of a dictionary.
\<close>

theorem took_extraction_soft_fail:
  assumes "get_from inst = Some p" and "pin_tracer p = Some t" and "tracer_enabled t"
    and "sampling_decision t"
    and "args = [method, url]"
    and "request_params es url kw = Inr (path, ps)"
    and "method = ''GET'' \<or> method = ''POST'' \<longrightarrow> serialize_body es inst (kw_body kw) = Inr b"
    and "func args kw w = (Inr result, w')"
  shows "\<exists>sp'. perform_request str_int es cfg quantize func inst args kw (w, closed)
               = (Inr result, w', closed @ [sp'])
           \<and> ((\<exists>e st s0. try_extract_took str_int es result s0 = Inl (e, st))
                \<and> (\<forall>s. get_metric (quantize s) TOOK = get_metric s TOOK)
                \<longrightarrow> get_metric sp' TOOK = None)
           \<and> ((\<forall>d. result \<noteq> PDict d) \<and> (\<forall>s d. result \<noteq> PTuple [s, PDict d])
                \<and> (\<forall>s. get_metric (quantize s) TOOK = get_metric s TOOK)
                \<longrightarrow> get_metric sp' TOOK = None)
           \<and> ((result = PDict d \<or> result = PTuple [status, PDict d])
                \<and> map_of d ''took'' = Some took
                \<and> (if version_ge8 es then took \<noteq> PNone else truthy took)
                \<and> py_int str_int took = Inl e
                \<and> (\<forall>s. get_metric (quantize s) TOOK = get_metric s TOOK)
                \<longrightarrow> get_metric sp' TOOK = None)"
proof -
  from tag_request_ok [OF assms(5-7)] obtain sp1
    where sp1: "tag_request es cfg inst args kw (opened_span p cfg t) = Inr sp1"
      and m1: "metrics sp1 = metrics (opened_span p cfg t)" by blast
  define sp' where "sp' =
    (if truthy (fst (extract_took str_int es result (quantize sp1)))
     then set_tag STATUS_CODE (fst (extract_took str_int es result (quantize sp1)))
            (snd (extract_took str_int es result (quantize sp1)))
     else snd (extract_took str_int es result (quantize sp1)))"
  have r: "perform_request str_int es cfg quantize func inst args kw (w, closed)
             = (Inr result, w', closed @ [sp'])"
    using assms(1-4) sp1 assms(8)
    by (simp add: perform_request_sampled sp'_def delegate_success)
  have raised: "get_metric sp' TOOK = None"
    if x: "try_extract_took str_int es result s0 = Inl (e', st)"
      and q: "\<forall>s. get_metric (quantize s) TOOK = get_metric s TOOK" for e' st s0
  proof -
    from x have "try_extract_took str_int es result (quantize sp1) = Inl (e', st)"
      by (rule try_extract_took_raises_any_span)
    then have "extract_took str_int es result (quantize sp1) = (st, quantize sp1)"
      by (rule extract_took_raised)
    then have "metrics sp' = metrics (quantize sp1)"
      by (simp add: sp'_def metrics_set_tag)
    then have "get_metric sp' TOOK = get_metric (quantize sp1) TOOK"
      by (simp add: get_metric_def)
    also have "\<dots> = get_metric sp1 TOOK" using q by simp
    also have "\<dots> = None" by (simp add: get_metric_def m1 metrics_opened_span)
    finally show ?thesis .
  qed
  have any: "get_metric sp' TOOK = None"
    if "\<exists>e st s0. try_extract_took str_int es result s0 = Inl (e, st)"
      and "\<forall>s. get_metric (quantize s) TOOK = get_metric s TOOK"
    using that raised by blast
  have no_get: "get_metric sp' TOOK = None"
    if "\<forall>d. result \<noteq> PDict d" and "\<forall>s d. result \<noteq> PTuple [s, PDict d]"
      and q: "\<forall>s. get_metric (quantize s) TOOK = get_metric s TOOK"
  proof -
    from that(1,2) obtain st
      where "try_extract_took str_int es result (quantize sp1) = Inl (AttributeError, st)"
      using try_extract_took_no_get [of result str_int es "quantize sp1"] by blast
    from raised [OF this q] show ?thesis .
  qed
  have int_raises: "get_metric sp' TOOK = None"
    if "result = PDict d \<or> result = PTuple [status, PDict d]"
      and "map_of d ''took'' = Some took"
      and "if version_ge8 es then took \<noteq> PNone else truthy took"
      and "py_int str_int took = Inl e"
      and q: "\<forall>s. get_metric (quantize s) TOOK = get_metric s TOOK"
  proof -
    from try_extract_took_int_raises [OF that(1-4), of "quantize sp1"] obtain st'
      where "try_extract_took str_int es result (quantize sp1) = Inl (e, st')" by blast
    from raised [OF this q] show ?thesis .
  qed
  from r any no_get int_raises show ?thesis by blast
qed

theorem took_extraction_soft_fail_witness:
  "get_from example_transport = Some example_pin \<and> pin_tracer example_pin = Some example_tracer
   \<and> tracer_enabled example_tracer \<and> sampling_decision example_tracer
   \<and> request_params es7 ''/_search'' no_kwargs = Inr (''/_search'', [])
   \<and> request_params es8 ''/_search'' no_kwargs = Inr (''/_search'', [])
   \<and> serialize_body es7 example_transport (kw_body no_kwargs) = Inr ''null''
   \<and> serialize_body es8 example_transport (kw_body no_kwargs) = Inr ''null''
   \<and> (\<forall>s. get_metric (keep_span s) TOOK = get_metric s TOOK)
   \<and> map_of [(''took'', PList [])] ''took'' = Some (PList [])
   \<and> version_ge8 es8 \<and> PList [] \<noteq> PNone
   \<and> (\<forall>str_int. py_int str_int (PList []) = Inl TypeError)
   \<and> (\<forall>str_int. \<exists>sp'. perform_request str_int es7 example_config keep_span
                (returning (PStr ''text''))
                example_transport [''GET'', ''/_search''] no_kwargs (0, [])
              = (Inr (PStr ''text''), Suc 0, [sp'])
            \<and> get_metric sp' TOOK = None)
   \<and> (\<forall>str_int. \<exists>sp'. perform_request str_int es8 example_config keep_span
                (returning (PDict [(''took'', PList [])]))
                example_transport [''GET'', ''/_search''] no_kwargs (0, [])
              = (Inr (PDict [(''took'', PList [])]), Suc 0, [sp'])
            \<and> get_metric sp' TOOK = None)"
proof -
  have d7: "request_params es7 ''/_search'' no_kwargs = Inr (''/_search'', [])"
    by (simp add: request_params_def es7_def version_ge8_def no_kwargs_def)
  have d8: "request_params es8 ''/_search'' no_kwargs = Inr (''/_search'', [])"
    by (simp add: request_params_def es8_def version_ge8_def parse_elasticsearch8_urlparams_def
          urlparse_def)
  have e7: "serialize_body es7 example_transport (kw_body no_kwargs) = Inr ''null''"
    by (simp add: serialize_body_def es7_def version_ge8_def example_transport_def
          example_dumps_def no_kwargs_def)
  have e8: "serialize_body es8 example_transport (kw_body no_kwargs) = Inr ''null''"
    by (simp add: serialize_body_def es8_def version_ge8_def example_transport_def
          example_dumps_def no_kwargs_def decode_utf8_def)
  have m7: "''GET'' = ''GET'' \<or> ''GET'' = ''POST''
      \<longrightarrow> serialize_body es7 example_transport (kw_body no_kwargs) = Inr ''null''"
    using e7 by simp
  have m8: "''GET'' = ''GET'' \<or> ''GET'' = ''POST''
      \<longrightarrow> serialize_body es8 example_transport (kw_body no_kwargs) = Inr ''null''"
    using e8 by simp
  have f7: "returning (PStr ''text'') [''GET'', ''/_search''] no_kwargs 0
              = (Inr (PStr ''text''), Suc 0)"
    by (simp add: returning_def)
  have f8: "returning (PDict [(''took'', PList [])]) [''GET'', ''/_search''] no_kwargs 0
              = (Inr (PDict [(''took'', PList [])]), Suc 0)"
    by (simp add: returning_def)
  have q: "\<forall>s. get_metric (keep_span s) TOOK = get_metric s TOOK"
    by (simp add: keep_span_def)
  have v: "version_ge8 es8" by (simp add: version_ge8_def es8_def)
  have no_get: "\<exists>sp'. perform_request str_int es7 example_config keep_span
                (returning (PStr ''text''))
                example_transport [''GET'', ''/_search''] no_kwargs (0, [])
              = (Inr (PStr ''text''), Suc 0, [sp'])
            \<and> get_metric sp' TOOK = None" for str_int
    using took_extraction_soft_fail [where str_int = str_int
        and func = "returning (PStr ''text'')" and w = 0
        and cfg = example_config and quantize = keep_span and closed = "[]",
        OF example_pin_facts refl d7 m7 f7] q
    by auto
  have int_raises: "\<exists>sp'. perform_request str_int es8 example_config keep_span
                (returning (PDict [(''took'', PList [])]))
                example_transport [''GET'', ''/_search''] no_kwargs (0, [])
              = (Inr (PDict [(''took'', PList [])]), Suc 0, [sp'])
            \<and> get_metric sp' TOOK = None" for str_int
    using took_extraction_soft_fail [where str_int = str_int
        and func = "returning (PDict [(''took'', PList [])])" and w = 0
        and cfg = example_config and quantize = keep_span and closed = "[]"
        and d = "[(''took'', PList [])]" and took = "PList []" and e = TypeError
        and status = PNone,
        OF example_pin_facts refl d8 m8 f8] q v
    by auto
  from no_get int_raises example_pin_facts d7 d8 e7 e8 q v show ?thesis by simp
qed

text \<open>
  Claim C9. In a traced and sampled \<^verbatim>\<open>GET\<close> or \<^verbatim>\<open>POST\<close> call, when serializing the
  body raises, that exception leaves the interceptor; the original method is not called
  (the world is unchanged), and the span is closed all the same.
\<close>

theorem body_serialization_error_propagates:
  assumes "get_from inst = Some p" and "pin_tracer p = Some t" and "tracer_enabled t"
    and "sampling_decision t"
    and "args = [method, url]"
    and "request_params es url kw = Inr (path, ps)"
    and "method = ''GET'' \<or> method = ''POST''"
    and "serialize_body es inst (kw_body kw) = Inl e"
  shows "\<exists>sp'. perform_request str_int es cfg quantize func inst args kw (w, closed)
               = (Inl e, w, closed @ [sp'])"
proof -
  from tag_request_serialization_error [OF assms(5-8)] obtain sp1
    where "tag_request es cfg inst args kw (opened_span p cfg t) = Inl (e, sp1)" by blast
  with assms(1-4) show ?thesis by (simp add: perform_request_sampled)
qed

theorem body_serialization_error_propagates_witness:
  "get_from example_transport = Some example_pin \<and> pin_tracer example_pin = Some example_tracer
   \<and> tracer_enabled example_tracer \<and> sampling_decision example_tracer
   \<and> request_params es7 ''/_search'' bad_body_kwargs = Inr (''/_search'', [])
   \<and> serialize_body es7 example_transport (kw_body bad_body_kwargs)
        = Inl (OtherError ''SerializationError'')
   \<and> (\<forall>str_int. \<exists>sp'. perform_request str_int es7 example_config keep_span
                (returning (PDict []))
                example_transport [''GET'', ''/_search''] bad_body_kwargs (0, [])
              = (Inl (OtherError ''SerializationError''), 0, [sp']))"
proof -
  have d: "request_params es7 ''/_search'' bad_body_kwargs = Inr (''/_search'', [])"
    by (simp add: request_params_def es7_def version_ge8_def bad_body_kwargs_def)
  have e: "serialize_body es7 example_transport (kw_body bad_body_kwargs)
             = Inl (OtherError ''SerializationError'')"
    by (simp add: serialize_body_def es7_def version_ge8_def example_transport_def
          example_dumps_def bad_body_kwargs_def)
  have m: "''GET'' = ''GET'' \<or> ''GET'' = ''POST''" by simp
  have main: "\<exists>sp'. perform_request str_int es7 example_config keep_span (returning (PDict []))
                example_transport [''GET'', ''/_search''] bad_body_kwargs (0, [])
              = (Inl (OtherError ''SerializationError''), 0, [sp'])" for str_int
    using body_serialization_error_propagates [where str_int = str_int
        and func = "returning (PDict [])" and w = 0
        and cfg = example_config and quantize = keep_span and closed = "[]",
        OF example_pin_facts refl d m e]
    by simp
  from main example_pin_facts d e show ?thesis by simp
qed

text \<open>
  Claim C8. In a traced and sampled call, with a \<open>quantize\<close> that keeps the tags, the
  closed span carries the method and the path as tags, and a body tag exactly when the
  method is \<^verbatim>\<open>GET\<close> or \<^verbatim>\<open>POST\<close>: then it is the body as the client's serializer
  writes it (from 8.0.0 on the bytes of \<^verbatim>\<open>default_serializer.dumps\<close> decoded as UTF-8,
  before that the string of \<^verbatim>\<open>serializer.dumps\<close>); for any other method, \<^verbatim>\<open>PUT\<close>
  for one, there is none.
\<close>

theorem body_tag_iff_get_or_post:
  assumes "get_from inst = Some p" and "pin_tracer p = Some t" and "tracer_enabled t"
    and "sampling_decision t"
    and "args = [method, url]"
    and "request_params es url kw = Inr (path, ps)"
    and "method = ''GET'' \<or> method = ''POST'' \<longrightarrow> serialize_body es inst (kw_body kw) = Inr b"
    and "\<forall>s k. get_tag (quantize s) k = get_tag s k"
  shows "\<exists>sp'. perform_request str_int es cfg quantize func inst args kw (w, closed)
               = (fst (func args kw w), snd (func args kw w), closed @ [sp'])
           \<and> get_tag sp' METHOD = Some (PStr method)
           \<and> get_tag sp' URL = Some (PStr path)
           \<and> get_tag sp' BODY
               = (if method = ''GET'' \<or> method = ''POST'' then Some (PStr b) else None)"
proof -
  from tag_request_ok [OF assms(5-7)] obtain sp1
    where sp1: "tag_request es cfg inst args kw (opened_span p cfg t) = Inr sp1"
      and t1: "get_tag sp1 METHOD = Some (PStr method)" "get_tag sp1 URL = Some (PStr path)"
        "get_tag sp1 BODY = (if method = ''GET'' \<or> method = ''POST''
                             then Some (PStr b) else get_tag (opened_span p cfg t) BODY)"
    by blast
  define sp' where "sp' = snd (snd (delegate str_int es func args kw w (quantize sp1)))"
  have r: "perform_request str_int es cfg quantize func inst args kw (w, closed)
             = (fst (func args kw w), snd (func args kw w), closed @ [sp'])"
    using assms(1-4) sp1 delegate_result [of str_int es func args kw w "quantize sp1"]
    by (cases "delegate str_int es func args kw w (quantize sp1)")
       (simp add: perform_request_sampled sp'_def)
  have k: "get_tag sp' k = get_tag sp1 k" if "k \<noteq> STATUS_CODE" for k
    using delegate_get_tag [OF that, of str_int es func args kw w "quantize sp1"] assms(8)
    by (simp add: sp'_def)
  have "get_tag sp' METHOD = Some (PStr method)" "get_tag sp' URL = Some (PStr path)"
    "get_tag sp' BODY = (if method = ''GET'' \<or> method = ''POST'' then Some (PStr b) else None)"
    using t1 k [of METHOD] k [of URL] k [of BODY]
    by (simp_all add: tag_keys get_tag_opened_span_BODY [unfolded BODY_def])
  with r show ?thesis by blast
qed

theorem body_tag_iff_get_or_post_witness:
  "get_from example_transport = Some example_pin \<and> pin_tracer example_pin = Some example_tracer
   \<and> tracer_enabled example_tracer \<and> sampling_decision example_tracer
   \<and> request_params es7 ''/my_index'' no_kwargs = Inr (''/my_index'', [])
   \<and> request_params es8 ''/my_index/_search?size=100'' search_kwargs
        = Inr (''/my_index/_search'', [(''size'', ''100'')])
   \<and> serialize_body es8 example_transport (kw_body search_kwargs)
        = Inr ''{\"query\":{\"match_all\":{}}}''
   \<and> (\<forall>s k. get_tag (keep_span s) k = get_tag s k)
   \<and> (\<forall>str_int. \<exists>sp'. perform_request str_int es7 example_config keep_span
                (returning (PDict []))
                example_transport [''PUT'', ''/my_index''] no_kwargs (0, [])
              = (Inr (PDict []), Suc 0, [sp'])
            \<and> get_tag sp' METHOD = Some (PStr ''PUT'')
            \<and> get_tag sp' URL = Some (PStr ''/my_index'')
            \<and> get_tag sp' BODY = None)
   \<and> (\<forall>str_int. \<exists>sp'. perform_request str_int es8 example_config keep_span
                (returning (PDict []))
                example_transport [''GET'', ''/my_index/_search?size=100''] search_kwargs (0, [])
              = (Inr (PDict []), Suc 0, [sp'])
            \<and> get_tag sp' METHOD = Some (PStr ''GET'')
            \<and> get_tag sp' URL = Some (PStr ''/my_index/_search'')
            \<and> get_tag sp' BODY = Some (PStr ''{\"query\":{\"match_all\":{}}}''))"
proof -
  have d7: "request_params es7 ''/my_index'' no_kwargs = Inr (''/my_index'', [])"
    by (simp add: request_params_def es7_def version_ge8_def no_kwargs_def)
  have d8: "request_params es8 ''/my_index/_search?size=100'' search_kwargs
              = Inr (''/my_index/_search'', [(''size'', ''100'')])"
    by (simp add: request_params_def es8_def version_ge8_def parse_elasticsearch8_urlparams_def
          urlparse_def)
  have e8: "serialize_body es8 example_transport (kw_body search_kwargs)
              = Inr ''{\"query\":{\"match_all\":{}}}''"
    by (simp add: serialize_body_def es8_def version_ge8_def example_transport_def
          example_dumps_def search_kwargs_def decode_utf8_def)
  have q: "\<forall>s k. get_tag (keep_span s) k = get_tag s k" by (simp add: keep_span_def)
  have m7: "''PUT'' = ''GET'' \<or> ''PUT'' = ''POST''
      \<longrightarrow> serialize_body es7 example_transport (kw_body no_kwargs) = Inr []" by simp
  have m8: "''GET'' = ''GET'' \<or> ''GET'' = ''POST''
      \<longrightarrow> serialize_body es8 example_transport (kw_body search_kwargs)
            = Inr ''{\"query\":{\"match_all\":{}}}''" using e8 by simp
  have put: "\<exists>sp'. perform_request str_int es7 example_config keep_span (returning (PDict []))
                example_transport [''PUT'', ''/my_index''] no_kwargs (0, [])
              = (Inr (PDict []), Suc 0, [sp'])
            \<and> get_tag sp' METHOD = Some (PStr ''PUT'')
            \<and> get_tag sp' URL = Some (PStr ''/my_index'')
            \<and> get_tag sp' BODY = None" for str_int
    using body_tag_iff_get_or_post [where str_int = str_int
        and func = "returning (PDict [])" and w = 0
        and cfg = example_config and quantize = keep_span and closed = "[]",
        OF example_pin_facts refl d7 m7 q]
    by (simp add: returning_def)
  have get: "\<exists>sp'. perform_request str_int es8 example_config keep_span (returning (PDict []))
                example_transport [''GET'', ''/my_index/_search?size=100''] search_kwargs (0, [])
              = (Inr (PDict []), Suc 0, [sp'])
            \<and> get_tag sp' METHOD = Some (PStr ''GET'')
            \<and> get_tag sp' URL = Some (PStr ''/my_index/_search'')
            \<and> get_tag sp' BODY = Some (PStr ''{\"query\":{\"match_all\":{}}}'')" for str_int
    using body_tag_iff_get_or_post [where str_int = str_int
        and func = "returning (PDict [])" and w = 0
        and cfg = example_config and quantize = keep_span and closed = "[]",
        OF example_pin_facts refl d8 m8 q]
    by (simp add: returning_def)
  from put get example_pin_facts d7 d8 e8 q show ?thesis by simp
qed





text \<open>
  Claim C1. When the transport instance has no pin, or its pin is not enabled, the
  interceptor is the original method: same result or exception, same new state of the
  world, and the list of closed spans is unchanged (no span is opened).
\<close>

theorem passthrough_without_tracing:
  assumes "get_from inst = None \<or> (\<exists>p. get_from inst = Some p \<and> \<not> enabled p)"
  shows "perform_request str_int es cfg quantize func inst args kw (w, closed)
           = (fst (func args kw w), snd (func args kw w), closed)"
  using assms by (auto simp: perform_request_def split: prod.splits)

theorem passthrough_without_tracing_witness:
  "get_from untraced_transport = None
   \<and> get_from disabled_transport = Some Pin \<and> \<not> enabled Pin
   \<and> (\<forall>str_int. perform_request str_int es7 example_config keep_span
          (returning (PDict [(''acknowledged'', PBool True)]))
          untraced_transport [''PUT'', ''/my_index''] no_kwargs (0, [])
        = (Inr (PDict [(''acknowledged'', PBool True)]), Suc 0, []))
   \<and> (\<forall>str_int. perform_request str_int es7 example_config keep_span
          (raising (OtherError ''ConnectionTimeout''))
          disabled_transport [''PUT'', ''/my_index''] no_kwargs (0, [])
        = (Inl (OtherError ''ConnectionTimeout''), Suc 0, []))"
proof -
  have a: "get_from untraced_transport = None" by (simp add: untraced_transport_def)
  have b: "get_from disabled_transport = Some Pin" "\<not> enabled Pin"
    by (simp_all add: disabled_transport_def Pin_def enabled_def)
  from a have a': "get_from untraced_transport = None
      \<or> (\<exists>p. get_from untraced_transport = Some p \<and> \<not> enabled p)" by simp
  from b have b': "get_from disabled_transport = None
      \<or> (\<exists>p. get_from disabled_transport = Some p \<and> \<not> enabled p)" by simp
  have untraced: "perform_request str_int es7 example_config keep_span
          (returning (PDict [(''acknowledged'', PBool True)]))
          untraced_transport [''PUT'', ''/my_index''] no_kwargs (0, [])
        = (Inr (PDict [(''acknowledged'', PBool True)]), Suc 0, [])" for str_int
    using passthrough_without_tracing [OF a', where str_int = str_int
        and func = "returning (PDict [(''acknowledged'', PBool True)])" and w = 0
        and args = "[''PUT'', ''/my_index'']" and kw = no_kwargs and closed = "[]"
        and es = es7 and cfg = example_config and quantize = keep_span]
    by (simp add: returning_def)
  have disabled: "perform_request str_int es7 example_config keep_span
          (raising (OtherError ''ConnectionTimeout''))
          disabled_transport [''PUT'', ''/my_index''] no_kwargs (0, [])
        = (Inl (OtherError ''ConnectionTimeout''), Suc 0, [])" for str_int
    using passthrough_without_tracing [OF b', where str_int = str_int
        and func = "raising (OtherError ''ConnectionTimeout'')" and w = 0
        and args = "[''PUT'', ''/my_index'']" and kw = no_kwargs and closed = "[]"
        and es = es7 and cfg = example_config and quantize = keep_span]
    by (simp add: raising_def)
  from untraced disabled a b show ?thesis by simp
qed

section \<open>Properties of the patch controller\<close>

lemma patch_module_noop:
  assumes "modules h name = Some es" and "is_patched es"
  shows "patch_module name h = h"
  using assms by (simp add: patch_module_def)

lemma unpatch_module_noop:
  assumes "modules h name = Some es" and "\<not> is_patched es"
  shows "unpatch_module name h = Inr h"
  using assms by (simp add: unpatch_module_def)

lemma patch_module_sets_flag:
  assumes "modules h name = Some es"
  shows "\<exists>es'. modules (patch_module name h) name = Some es' \<and> is_patched es'
            \<and> version es' = version es \<and> transport_attr es' = transport_attr es"
  using assms by (auto simp: patch_module_def Let_def is_patched_def)

lemma patch_module_twice:
  assumes "modules h name = Some es"
  shows "patch_module name (patch_module name h) = patch_module name h"
proof -
  from patch_module_sets_flag [OF assms] obtain es'
    where "modules (patch_module name h) name = Some es'" and "is_patched es'" by blast
  then show ?thesis by (rule patch_module_noop)
qed

lemma patch_module_funpow:
  assumes "modules h name = Some es" and "0 < n"
  shows "(patch_module name ^^ n) h = patch_module name h"
  using assms(2)
proof (induction n)
  case 0
  then show ?case by simp
next
  case (Suc n)
  show ?case
  proof (cases "n = 0")
    case True
    then show ?thesis by simp
  next
    case False
    with Suc.IH have "(patch_module name ^^ n) h = patch_module name h" by simp
    then show ?thesis by (simp add: patch_module_twice [OF assms(1)])
  qed
qed

lemma determine_transport_module_update [simp]:
  "determine_transport_module (h\<lparr>modules := ms\<rparr>) es = determine_transport_module h es"
  "determine_transport_module (h\<lparr>transports := ts\<rparr>) es = determine_transport_module h es"
  "determine_transport_module h (es\<lparr>datadog_patch := f\<rparr>) = determine_transport_module h es"
  by (simp_all add: determine_transport_module_def split: option.splits)

lemma patch_module_effect:
  assumes "modules h name = Some es" and "\<not> is_patched es"
  shows "patch_module name h =
           h\<lparr>modules := (modules h)(name \<mapsto> es\<lparr>datadog_patch := Some True\<rparr>),
             transports := (transports h)
               (determine_transport_module h es :=
                  (transports h (determine_transport_module h es))
                    \<lparr>tc_perform_request :=
                       Wrapped name (tc_perform_request (transports h (determine_transport_module h es))),
                     tc_pin := Some Pin\<rparr>)\<rparr>"
  using assms by (simp add: patch_module_def Let_def)

lemma unpatch_module_effect:
  assumes "modules h name = Some es" and "is_patched es"
    and "tc_perform_request (transports h (determine_transport_module h es)) = Wrapped x m"
  shows "unpatch_module name h =
           Inr (h\<lparr>modules := (modules h)(name \<mapsto> es\<lparr>datadog_patch := Some False\<rparr>),
                  transports := (transports h)
                    (determine_transport_module h es :=
                       (transports h (determine_transport_module h es))
                         \<lparr>tc_perform_request := m\<rparr>)\<rparr>)"
  using assms by (simp add: unpatch_module_def Let_def)

lemma unpatch_after_patch_module:
  assumes "modules h name = Some es" and "\<not> is_patched es"
  shows "\<exists>h'. unpatch_module name (patch_module name h) = Inr h'
           \<and> modules h' = (modules h)(name \<mapsto> es\<lparr>datadog_patch := Some False\<rparr>)
           \<and> meth h' = meth h
           \<and> elastic_transport h' = elastic_transport h"
proof -
  let ?a = "determine_transport_module h es"
  let ?h1 = "patch_module name h"
  note e = patch_module_effect [OF assms]
  have 1: "modules ?h1 name = Some (es\<lparr>datadog_patch := Some True\<rparr>)" by (simp add: e)
  have 2: "is_patched (es\<lparr>datadog_patch := Some True\<rparr>)" by (simp add: is_patched_def)
  have 3: "tc_perform_request (transports ?h1
              (determine_transport_module ?h1 (es\<lparr>datadog_patch := Some True\<rparr>)))
            = Wrapped name (tc_perform_request (transports h ?a))"
    by (simp add: e)
  show ?thesis
    unfolding unpatch_module_effect [OF 1 2 3]
    by (simp add: e meth_def fun_eq_iff)
qed

lemma unwrap_times_outer:
  "unwrap_times k m = Some m1 \<Longrightarrow> unwrap_times (Suc k) (Wrapped x m) = Some m1"
  by simp

lemma unwrap_times_inner:
  "unwrap_times k m = Some (Wrapped x m1) \<Longrightarrow> unwrap_times (Suc k) m = Some m1"
proof (induction k m rule: unwrap_times.induct)
  case (1 m)
  then show ?case by simp
next
  case (2 k name m)
  then show ?case by simp
next
  case (3 k)
  then show ?case by simp
qed

text \<open>What one call of \<open>patch_module\<close> changes, in terms of what can be observed.\<close>

lemma patch_module_observed:
  assumes "modules h name = Some es" and "\<not> is_patched es"
  shows "modules (patch_module name h) = (modules h)(name \<mapsto> es\<lparr>datadog_patch := Some True\<rparr>)"
    and "meth (patch_module name h)
           = (meth h)(transport_of h name := Wrapped name (meth h (transport_of h name)))"
    and "elastic_transport (patch_module name h) = elastic_transport h"
  using assms
  by (simp_all add: patch_module_effect [OF assms] meth_def transport_of_def fun_eq_iff)

lemma patch_module_unchanged:
  assumes "modules h name = None \<or> patched h name"
  shows "patch_module name h = h"
  using assms by (auto simp: patch_module_def patched_def split: option.splits)

lemma patched_patch_module:
  "patched h n \<Longrightarrow> patched (patch_module name h) n"
  by (auto simp: patch_module_def patched_def Let_def is_patched_def split: option.splits)

lemma patched_after_patch_module:
  "modules h name \<noteq> None \<Longrightarrow> patched (patch_module name h) name"
  by (auto simp: patch_module_def patched_def Let_def is_patched_def split: option.splits)

lemma installed_patch_module:
  "(modules (patch_module name h) n = None) = (modules h n = None)"
  by (auto simp: patch_module_def Let_def split: option.splits)

lemma transport_of_patch_module:
  "transport_of (patch_module name h) n = transport_of h n"
  by (auto simp: patch_module_def transport_of_def Let_def split: option.splits)

lemma unpatched_patch_module:
  "n \<noteq> name \<Longrightarrow> patched (patch_module name h) n = patched h n"
  by (auto simp: patch_module_def patched_def Let_def split: option.splits)

lemma es_modules_patch_module: "es_modules (patch_module name h) = es_modules h"
  by (simp add: es_modules_def installed_patch_module)

lemma fold_patch_module_unchanged:
  assumes "\<And>n. n \<in> set ns \<Longrightarrow> modules h n = None \<or> patched h n"
  shows "fold patch_module ns h = h"
  using assms by (induction ns) (simp_all add: patch_module_unchanged)

lemma patched_fold_patch_module:
  "patched h n \<Longrightarrow> patched (fold patch_module ns h) n"
  by (induction ns arbitrary: h) (simp_all add: patched_patch_module)

lemma installed_fold_patch_module:
  "(modules (fold patch_module ns h) n = None) = (modules h n = None)"
  by (induction ns arbitrary: h) (simp_all add: installed_patch_module)

lemma es_modules_fold_patch_module: "es_modules (fold patch_module ns h) = es_modules h"
  by (simp add: es_modules_def installed_fold_patch_module)

lemma patched_after_fold:
  assumes "n \<in> set ns" and "modules h n \<noteq> None"
  shows "patched (fold patch_module ns h) n"
  using assms
proof (induction ns arbitrary: h)
  case Nil
  then show ?case by simp
next
  case (Cons x xs)
  show ?case
  proof (cases "n = x")
    case True
    with Cons.prems(2) have "patched (patch_module x h) n"
      by (simp add: patched_after_patch_module)
    then show ?thesis by (simp add: patched_fold_patch_module)
  next
    case False
    with Cons.prems have "n \<in> set xs" by simp
    moreover have "modules (patch_module x h) n \<noteq> None"
      using Cons.prems(2) by (simp add: installed_patch_module)
    ultimately show ?thesis using Cons.IH by simp
  qed
qed

lemma patch_twice: "patch (patch h) = patch h"
proof -
  have "patch (patch h) = fold patch_module (es_modules h) (patch h)"
    by (simp add: patch_def es_modules_fold_patch_module)
  also have "\<dots> = patch h"
  proof (rule fold_patch_module_unchanged)
    fix n assume n: "n \<in> set (es_modules h)"
    then have "modules h n \<noteq> None" by (simp add: es_modules_def)
    from patched_after_fold [OF n this] show "modules (patch h) n = None \<or> patched (patch h) n"
      by (simp add: patch_def)
  qed
  finally show ?thesis .
qed

lemma patch_funpow: "0 < n \<Longrightarrow> (patch ^^ n) h = patch h"
proof (induction n)
  case 0
  then show ?case by simp
next
  case (Suc n)
  then show ?case by (cases "n = 0") (simp_all add: patch_twice)
qed

lemma transport_of_fold_patch_module:
  "transport_of (fold patch_module ns h) n = transport_of h n"
  by (induction ns arbitrary: h) (simp_all add: transport_of_patch_module)

lemma meth_patch_module:
  assumes "modules h name \<noteq> None" and "\<not> patched h name"
  shows "meth (patch_module name h) a
           = (if a = transport_of h name then Wrapped name (meth h a) else meth h a)"
proof -
  from assms obtain es where "modules h name = Some es" and "\<not> is_patched es"
    by (auto simp: patched_def)
  from patch_module_observed(2) [OF this] show ?thesis by simp
qed

text \<open>
  After the loop of \<open>patch\<close> over variants that were not patched, the method of a
  transport class lies under as many wrappers as variants resolve to that class.
\<close>

lemma fold_patch_module_layers:
  assumes "distinct ns" and "\<And>n. n \<in> set ns \<Longrightarrow> modules h n \<noteq> None \<and> \<not> patched h n"
  shows "unwrap_times (length (filter (\<lambda>n. transport_of h n = a) ns))
           (meth (fold patch_module ns h) a) = Some (meth h a)"
  using assms
proof (induction ns arbitrary: h)
  case Nil
  then show ?case by simp
next
  case (Cons x xs)
  let ?h1 = "patch_module x h"
  have x: "modules h x \<noteq> None" "\<not> patched h x" using Cons.prems(2) by simp_all
  have pre: "modules ?h1 n \<noteq> None \<and> \<not> patched ?h1 n" if "n \<in> set xs" for n
  proof -
    from that Cons.prems(1) have "n \<noteq> x" by auto
    with that Cons.prems(2) [of n] show ?thesis
      by (simp add: installed_patch_module unpatched_patch_module)
  qed
  from Cons.prems(1) have "distinct xs" by simp
  from Cons.IH [OF this pre]
  have ih: "unwrap_times (length (filter (\<lambda>n. transport_of h n = a) xs))
              (meth (fold patch_module xs ?h1) a) = Some (meth ?h1 a)"
    by (simp add: transport_of_patch_module)
  show ?case
  proof (cases "transport_of h x = a")
    case True
    with ih x have "unwrap_times (length (filter (\<lambda>n. transport_of h n = a) xs))
              (meth (fold patch_module xs ?h1) a) = Some (Wrapped x (meth h a))"
      by (simp add: meth_patch_module)
    from unwrap_times_inner [OF this] True show ?thesis by simp
  next
    case False
    with ih x show ?thesis by (auto simp: meth_patch_module)
  qed
qed

lemma unpatch_module_observed:
  assumes "modules h name = Some es" and "is_patched es"
    and "meth h (transport_of h name) = Wrapped x m"
  shows "\<exists>h'. unpatch_module name h = Inr h'
           \<and> modules h' = (modules h)(name \<mapsto> es\<lparr>datadog_patch := Some False\<rparr>)
           \<and> meth h' = (meth h)(transport_of h name := m)
           \<and> elastic_transport h' = elastic_transport h"
proof -
  from assms have "tc_perform_request (transports h (determine_transport_module h es)) = Wrapped x m"
    by (simp add: meth_def transport_of_def)
  from unpatch_module_effect [OF assms(1,2) this] assms(1) show ?thesis
    by (simp add: meth_def transport_of_def fun_eq_iff)
qed

text \<open>
  The loop of \<open>unpatch\<close> over patched variants takes one wrapper off for each: it
  succeeds when every transport class has that many wrappers, and leaves what is under
  them.
\<close>

lemma unpatch_each_layers:
  assumes "distinct ns" and "\<And>n. n \<in> set ns \<Longrightarrow> patched h n"
    and "\<And>a. unwrap_times (length (filter (\<lambda>n. transport_of h n = a) ns)) (meth h a)
               = Some (m0 a)"
  shows "\<exists>h'. unpatch_each ns h = Inr h' \<and> meth h' = m0
           \<and> (\<forall>n \<in> set ns. \<not> patched h' n)
           \<and> (\<forall>n. n \<notin> set ns \<longrightarrow> modules h' n = modules h n)"
  using assms
proof (induction ns arbitrary: h)
  case Nil
  from Nil.prems(3) have "meth h = m0" by (simp add: fun_eq_iff)
  then show ?case by simp
next
  case (Cons x xs)
  from Cons.prems(2) [of x] obtain es where es: "modules h x = Some es" "is_patched es"
    by (auto simp: patched_def split: option.splits)
  let ?a = "transport_of h x"
  let ?c = "length (filter (\<lambda>n. transport_of h n = ?a) xs)"
  from Cons.prems(3) [of ?a] have u: "unwrap_times (Suc ?c) (meth h ?a) = Some (m0 ?a)" by simp
  then obtain y m where m: "meth h ?a = Wrapped y m" by (cases "meth h ?a") simp_all
  with u have um: "unwrap_times ?c m = Some (m0 ?a)" by simp
  from unpatch_module_observed [OF es m] obtain h1
    where h1: "unpatch_module x h = Inr h1"
      and mods: "modules h1 = (modules h)(x \<mapsto> es\<lparr>datadog_patch := Some False\<rparr>)"
      and meths: "meth h1 = (meth h)(?a := m)"
      and el: "elastic_transport h1 = elastic_transport h"
    by blast
  have tr: "transport_of h1 n = transport_of h n" for n
    using es(1)
    by (simp add: transport_of_def mods el determine_transport_module_def split: option.splits)
  from Cons.prems(1) have dx: "x \<notin> set xs" and dxs: "distinct xs" by simp_all
  have p1: "patched h1 n" if "n \<in> set xs" for n
  proof -
    from that dx have "n \<noteq> x" by auto
    with Cons.prems(2) [of n] that show ?thesis by (simp add: patched_def mods)
  qed
  have l1: "unwrap_times (length (filter (\<lambda>n. transport_of h1 n = a) xs)) (meth h1 a) = Some (m0 a)"
    for a
  proof (cases "a = ?a")
    case True
    with um show ?thesis by (simp add: tr meths)
  next
    case False
    with Cons.prems(3) [of a] show ?thesis by (auto simp: tr meths)
  qed
  from Cons.IH [OF dxs p1 l1] obtain h'
    where h': "unpatch_each xs h1 = Inr h'" "meth h' = m0" "\<forall>n \<in> set xs. \<not> patched h' n"
      "\<forall>n. n \<notin> set xs \<longrightarrow> modules h' n = modules h1 n"
    by blast
  from h'(4) dx have "modules h' x = Some (es\<lparr>datadog_patch := Some False\<rparr>)"
    by (simp add: mods)
  then have "\<not> patched h' x" by (simp add: patched_def is_patched_def)
  moreover have "\<forall>n. n \<notin> set (x # xs) \<longrightarrow> modules h' n = modules h n"
    using h'(4) by (simp add: mods)
  ultimately show ?case using h1 h'(1-3) by simp
qed

lemma distinct_es_modules: "distinct (es_modules h)"
  by (simp add: es_modules_def module_names_def)

lemma unpatch_patch:
  assumes "\<And>n. n \<in> set (es_modules h) \<Longrightarrow> \<not> patched h n"
  shows "\<exists>h'. unpatch (patch h) = Inr h' \<and> meth h' = meth h
           \<and> (\<forall>n \<in> set (es_modules h). \<not> patched h' n)"
proof -
  let ?ns = "es_modules h"
  have inst: "modules h n \<noteq> None \<and> \<not> patched h n" if "n \<in> set ?ns" for n
    using that assms by (simp add: es_modules_def)
  have p: "patched (patch h) n" if "n \<in> set ?ns" for n
    using patched_after_fold [OF that] inst [OF that] by (simp add: patch_def)
  have l: "unwrap_times (length (filter (\<lambda>n. transport_of (patch h) n = a) ?ns)) (meth (patch h) a)
             = Some (meth h a)" for a
    using fold_patch_module_layers [OF distinct_es_modules inst, where a = a]
    by (simp add: patch_def transport_of_fold_patch_module)
  from unpatch_each_layers [OF distinct_es_modules p l]
  show ?thesis by (auto simp: unpatch_def patch_def es_modules_fold_patch_module)
qed

lemma unpatch_each_unchanged:
  assumes "\<And>n. n \<in> set ns \<Longrightarrow> \<not> patched h n"
  shows "unpatch_each ns h = Inr h"
  using assms
proof (induction ns)
  case Nil
  then show ?case by simp
next
  case (Cons x xs)
  from Cons.prems [of x] have "unpatch_module x h = Inr h"
    by (auto simp: unpatch_module_def patched_def split: option.splits)
  with Cons show ?case by simp
qed

text \<open>
  Claim C4. For a variant of \<^verbatim>\<open>module_names\<close> that is installed: \<^verbatim>\<open>_patch\<close> changes
  nothing when its flag is set, and \<^verbatim>\<open>_unpatch\<close> changes nothing when the flag is false
  or has never been set; patching any number of times, the variant alone or all variants
  with \<^verbatim>\<open>patch()\<close>, gives the store that patching once gives; and unpatching after
  any number of patches, from a store where no variant was patched, succeeds, puts
  back the method of every transport class and leaves the variant's flag false.
\<close>

theorem patch_unpatch_idempotent:
  assumes "modules h name = Some es" and "name \<in> set module_names"
  shows "(is_patched es \<longrightarrow> patch_module name h = h)
       \<and> (\<not> is_patched es \<longrightarrow> unpatch_module name h = Inr h)
       \<and> (0 < n \<longrightarrow> (patch_module name ^^ n) h = patch_module name h)
       \<and> (0 < n \<longrightarrow> (patch ^^ n) h = patch h)
       \<and> (\<not> is_patched es \<and> 0 < n
            \<longrightarrow> (\<exists>h'. unpatch_module name ((patch_module name ^^ n) h) = Inr h'
                     \<and> meth h' = meth h \<and> \<not> patched h' name))
       \<and> ((\<forall>m \<in> set (es_modules h). \<not> patched h m)
            \<longrightarrow> (\<exists>h'. unpatch ((patch ^^ n) h) = Inr h'
                     \<and> meth h' = meth h \<and> \<not> patched h' name))"
proof -
  have inst: "name \<in> set (es_modules h)" using assms by (simp add: es_modules_def)
  have 1: "patch_module name h = h" if "is_patched es"
    using assms(1) that by (rule patch_module_noop)
  have 2: "unpatch_module name h = Inr h" if "\<not> is_patched es"
    using assms(1) that by (rule unpatch_module_noop)
  have 3: "(patch_module name ^^ n) h = patch_module name h" if "0 < n"
    using assms(1) that by (rule patch_module_funpow)
  have 4: "(patch ^^ n) h = patch h" if "0 < n"
    using that by (rule patch_funpow)
  have 5: "\<exists>h'. unpatch_module name ((patch_module name ^^ n) h) = Inr h'
             \<and> meth h' = meth h \<and> \<not> patched h' name" if "\<not> is_patched es" "0 < n"
  proof -
    from unpatch_after_patch_module [OF assms(1) that(1)] obtain h'
      where "unpatch_module name (patch_module name h) = Inr h'"
        and "modules h' = (modules h)(name \<mapsto> es\<lparr>datadog_patch := Some False\<rparr>)"
        and "meth h' = meth h" by blast
    then show ?thesis using 3 [OF that(2)] by (auto simp: patched_def is_patched_def)
  qed
  have 6: "\<exists>h'. unpatch ((patch ^^ n) h) = Inr h' \<and> meth h' = meth h \<and> \<not> patched h' name"
    if u: "\<forall>m \<in> set (es_modules h). \<not> patched h m"
  proof (cases "n = 0")
    case True
    from u have "unpatch h = Inr h" by (simp add: unpatch_def unpatch_each_unchanged)
    with True u inst show ?thesis by auto
  next
    case False
    then have "(patch ^^ n) h = patch h" using 4 by simp
    moreover from u have "\<And>m. m \<in> set (es_modules h) \<Longrightarrow> \<not> patched h m" by simp
    from unpatch_patch [OF this] inst
    have "\<exists>h'. unpatch (patch h) = Inr h' \<and> meth h' = meth h \<and> \<not> patched h' name" by blast
    ultimately show ?thesis by simp
  qed
  from 1 2 3 4 5 6 show ?thesis by blast
qed

theorem patch_unpatch_idempotent_witness:
  "modules example_heap ''elasticsearch8'' = Some (unpatched_module [8, 0, 0] None)
   \<and> ''elasticsearch8'' \<in> set module_names
   \<and> \<not> is_patched (unpatched_module [8, 0, 0] None)
   \<and> list_all (\<lambda>m. \<not> patched example_heap m) (es_modules example_heap)
   \<and> unpatch_module ''elasticsearch8'' example_heap = Inr example_heap
   \<and> (patch_module ''elasticsearch8'' ^^ 2) example_heap = patch_module ''elasticsearch8'' example_heap
   \<and> (patch ^^ 2) example_heap = patch example_heap
   \<and> (\<exists>h'. unpatch_module ''elasticsearch8'' ((patch_module ''elasticsearch8'' ^^ 2) example_heap) = Inr h'
          \<and> meth h' = meth example_heap \<and> \<not> patched h' ''elasticsearch8'')
   \<and> (\<exists>h'. unpatch ((patch ^^ 2) example_heap) = Inr h'
          \<and> meth h' = meth example_heap \<and> \<not> patched h' ''elasticsearch8'')"
proof -
  have a: "modules example_heap ''elasticsearch8'' = Some (unpatched_module [8, 0, 0] None)"
    by (simp add: example_heap_def)
  have b: "''elasticsearch8'' \<in> set module_names" by (simp add: module_names_def)
  have c: "\<not> is_patched (unpatched_module [8, 0, 0] None)"
    by (simp add: is_patched_def unpatched_module_def)
  have d: "\<forall>m \<in> set (es_modules example_heap). \<not> patched example_heap m"
    by (simp add: es_modules_def module_names_def example_heap_def patched_def is_patched_def
          unpatched_module_def)
  then have d': "list_all (\<lambda>m. \<not> patched example_heap m) (es_modules example_heap)"
    by (simp add: list_all_iff)
  have n: "0 < (2::nat)" by simp
  from patch_unpatch_idempotent [OF a b, of 2] a b c d d' n show ?thesis by blast
qed

end
